theory Spec2Isabelle
  imports Main "HOL-Library.Word" "HOL-Library.Char_ord" "HOL-Library.List_Lexorder"
begin

unbundle bit_operations_syntax

section \<open>The recommendation server (recommendation\_server\_svd.py)\<close>

text \<open>
  The development embeds the request path and the startup code of
  \<^verbatim>\<open>src/recommendationservice/recommendation_server_svd.py\<close>.

  Conventions.
  \<^item> A Python \<^verbatim>\<open>str\<close> is a \<^typ>\<open>string\<close>. The strings that matter arrive in protobuf
    \<^verbatim>\<open>string\<close> fields, which hold well-formed Unicode text; such a text is represented
    by the bytes of its UTF-8 form, one \<^typ>\<open>char\<close> per byte.
  \<^item> A Python \<^verbatim>\<open>int\<close> is an \<^typ>\<open>int\<close>; \<^verbatim>\<open>%\<close> is \<open>mod\<close>, which rounds the same way.
  \<^item> An exception is a value: a function that may raise returns \<open>error + 'a\<close>.
  \<^item> Logging, sleeping and the calls into the gRPC and Google Cloud libraries are
    recorded as a list of events, in program order.
\<close>

subsection \<open>Exceptions\<close>

text \<open>
  The exception classes the program names or can meet. \<open>BaseException\<close> stands for an
  exception outside \<open>Exception\<close> (such as \<^verbatim>\<open>SystemExit\<close>), \<open>Exception\<close> for any other
  subclass of \<open>Exception\<close>. The string is what \<^verbatim>\<open>str(exc)\<close> returns.
\<close>

datatype exc_class =
  BaseException | Exception | KeyError | ZeroDivisionError | ValueError | AttributeError
  | DefaultCredentialsError

datatype error = Error exc_class string

fun exc_str :: "error \<Rightarrow> string" where
  "exc_str (Error c msg) = msg"

text \<open>\<open>isinstance e c\<close>: would \<^verbatim>\<open>except c\<close> catch \<open>e\<close>?\<close>

fun isinstance :: "error \<Rightarrow> exc_class \<Rightarrow> bool" where
  "isinstance (Error c msg) BaseException = True"
| "isinstance (Error c msg) Exception = (c \<noteq> BaseException)"
| "isinstance (Error c msg) d = (c = d)"

subsection \<open>Events\<close>

datatype event =
  LogInfo string
  | LogWarning string
  | LogError string
  | Sleep int
  | ProfilerStart "string option"
  | PrintExc
  | InsecureChannel string
  | GrpcServer int
  | AddRecommendationServicer
  | AddHealthServicer
  | AddInsecurePort string
  | ServerStart

subsection \<open>SHA-1 (\<^verbatim>\<open>hashlib.sha1\<close>)\<close>

text \<open>
  \<^verbatim>\<open>hashlib\<close> is the interpreter's library; \<open>sha1\<close> below is the function it computes
  (FIPS 180-4), on bytes and 32-bit words: padding to a multiple of 64 bytes, the
  message schedule of 80 words, 80 rounds for each block. \<open>sha1 m\<close> is what
  \<^verbatim>\<open>hashlib.sha1(m).digest()\<close> returns.
\<close>

type_synonym byte = "8 word"
type_synonym u32 = "32 word"

definition rotl :: "nat \<Rightarrow> u32 \<Rightarrow> u32" where
  "rotl n x = push_bit n x OR drop_bit (32 - n) x"

definition length_bytes :: "64 word \<Rightarrow> byte list" where
  "length_bytes n = map (\<lambda>i. ucast (drop_bit (8 * i) n)) [7, 6, 5, 4, 3, 2, 1, 0]"

definition sha1_pad :: "byte list \<Rightarrow> byte list" where
  "sha1_pad m =
     m @ [0x80] @ replicate ((119 - length m mod 64) mod 64) 0
       @ length_bytes (8 * of_nat (length m))"

definition word_of_bytes :: "byte list \<Rightarrow> u32" where
  "word_of_bytes bs = foldl (\<lambda>a b. push_bit 8 a OR ucast b) 0 bs"

fun words_of_block :: "byte list \<Rightarrow> u32 list" where
  "words_of_block [] = []"
| "words_of_block bs = word_of_bytes (take 4 bs) # words_of_block (drop 4 bs)"

fun expand :: "nat \<Rightarrow> u32 list \<Rightarrow> u32 list" where
  "expand 0 w = w"
| "expand (Suc k) w =
     expand k (w @ [rotl 1 (w ! (length w - 3) XOR w ! (length w - 8)
                           XOR w ! (length w - 14) XOR w ! (length w - 16))])"

definition f_t :: "nat \<Rightarrow> u32 \<Rightarrow> u32 \<Rightarrow> u32 \<Rightarrow> u32" where
  "f_t t b c d =
     (if t < 20 then (b AND c) OR (NOT b AND d)
      else if t < 40 then b XOR c XOR d
      else if t < 60 then (b AND c) OR (b AND d) OR (c AND d)
      else b XOR c XOR d)"

definition k_t :: "nat \<Rightarrow> u32" where
  "k_t t =
     (if t < 20 then 0x5A827999 else if t < 40 then 0x6ED9EBA1
      else if t < 60 then 0x8F1BBCDC else 0xCA62C1D6)"

type_synonym sha_state = "u32 \<times> u32 \<times> u32 \<times> u32 \<times> u32"

fun rounds :: "nat \<Rightarrow> u32 list \<Rightarrow> sha_state \<Rightarrow> sha_state" where
  "rounds t [] s = s"
| "rounds t (w # ws) (a, b, c, d, e) =
     rounds (Suc t) ws (rotl 5 a + f_t t b c d + e + k_t t + w, a, rotl 30 b, c, d)"

definition compress :: "sha_state \<Rightarrow> byte list \<Rightarrow> sha_state" where
  "compress h blk =
     (case h of (h0, h1, h2, h3, h4) \<Rightarrow>
        (case rounds 0 (expand 64 (words_of_block blk)) h of (a, b, c, d, e) \<Rightarrow>
           (h0 + a, h1 + b, h2 + c, h3 + d, h4 + e)))"

fun blocks :: "byte list \<Rightarrow> byte list list" where
  "blocks [] = []"
| "blocks bs = take 64 bs # blocks (drop 64 bs)"

definition word_bytes :: "u32 \<Rightarrow> byte list" where
  "word_bytes w =
     [ucast (drop_bit 24 w), ucast (drop_bit 16 w), ucast (drop_bit 8 w), ucast w]"

definition sha1 :: "byte list \<Rightarrow> byte list" where
  "sha1 m =
     (case foldl compress (0x67452301, 0xEFCDAB89, 0x98BADCFE, 0x10325476, 0xC3D2E1F0)
             (blocks (sha1_pad m)) of
        (h0, h1, h2, h3, h4) \<Rightarrow> concat (map word_bytes [h0, h1, h2, h3, h4]))"

text \<open>\<^verbatim>\<open>.hexdigest()\<close>: two lower-case hexadecimal digits for each byte.\<close>

definition hex_digit :: "nat \<Rightarrow> char" where
  "hex_digit n = (if n < 10 then char_of (48 + n) else char_of (87 + n))"

definition hexdigest :: "byte list \<Rightarrow> string" where
  "hexdigest bs =
     concat (map (\<lambda>b. [hex_digit (unat b div 16), hex_digit (unat b mod 16)]) bs)"

subsection \<open>Strings and numbers\<close>

text \<open>
  \<^verbatim>\<open>s.encode("utf-8")\<close>. The string is held as its UTF-8 bytes, so the encoding
  returns them. (Python raises \<^verbatim>\<open>UnicodeEncodeError\<close> only for a lone surrogate,
  which no protobuf string field contains.)
\<close>

definition encode_utf8 :: "string \<Rightarrow> byte list" where
  "encode_utf8 s = map of_char s"

text \<open>
  \<^verbatim>\<open>repr\<close> of a string that holds no quote, no backslash and no unprintable
  character, and of a list of such strings; \<^verbatim>\<open>"{}".format(xs)\<close> prints the latter.
\<close>

definition repr_str :: "string \<Rightarrow> string" where
  "repr_str s = [CHR 0x27] @ s @ [CHR 0x27]"

fun join :: "string \<Rightarrow> string list \<Rightarrow> string" where
  "join sep [] = []"
| "join sep [x] = x"
| "join sep (x # y # ys) = x @ sep @ join sep (y # ys)"

definition repr_list :: "string list \<Rightarrow> string" where
  "repr_list xs = ''['' @ join '', '' (map repr_str xs) @ '']''"

text \<open>
  \<^verbatim>\<open>int(s, 16)\<close> on a string of hexadecimal digits. The empty string and a string
  with another character raise \<^verbatim>\<open>ValueError\<close>; the other forms Python accepts (a sign,
  surrounding blanks, a \<^verbatim>\<open>0x\<close> prefix, underscores) contain a character that is no
  hexadecimal digit and never come out of \<open>hexdigest\<close>.
\<close>

definition digit_value :: "char \<Rightarrow> int option" where
  "digit_value c =
     (let n = of_char c :: nat in
      if 48 \<le> n \<and> n \<le> 57 then Some (int n - 48)
      else if 97 \<le> n \<and> n \<le> 102 then Some (int n - 87)
      else if 65 \<le> n \<and> n \<le> 70 then Some (int n - 55)
      else None)"

fun parse_digits :: "int \<Rightarrow> string \<Rightarrow> int option" where
  "parse_digits acc [] = Some acc"
| "parse_digits acc (c # cs) =
     (case digit_value c of
        None \<Rightarrow> None
      | Some d \<Rightarrow> parse_digits (acc * 16 + d) cs)"

definition int_base16 :: "string \<Rightarrow> error + int" where
  "int_base16 s =
     (if s = [] then
        Inl (Error ValueError (''invalid literal for int() with base 16: '' @ repr_str s))
      else
        (case parse_digits 0 s of
           None \<Rightarrow>
             Inl (Error ValueError (''invalid literal for int() with base 16: '' @ repr_str s))
         | Some n \<Rightarrow> Inr n))"

text \<open>A byte string read as one unsigned number, most significant byte first.\<close>

definition digest_int :: "byte list \<Rightarrow> int" where
  "digest_int bs = foldl (\<lambda>a b. a * 256 + uint b) 0 bs"

subsection \<open>Resolving the caller's token (lines 135--136)\<close>

text \<open>
  \<^verbatim>\<open>user_id = 1 + int(hashlib.sha1(request.user_id.encode("utf-8")).hexdigest(), 16) % train_users\<close>

  \<^verbatim>\<open>%\<close> binds tighter than \<^verbatim>\<open>+\<close>, and raises \<^verbatim>\<open>ZeroDivisionError\<close> for a zero
  divisor, where \<open>mod\<close> would return the dividend.
\<close>

definition Resolve :: "int \<Rightarrow> string \<Rightarrow> error + int" where
  "Resolve train_users token =
     (case int_base16 (hexdigest (sha1 (encode_utf8 token))) of
        Inl e \<Rightarrow> Inl e
      | Inr digest \<Rightarrow>
          if train_users = 0 then
            Inl (Error ZeroDivisionError ''integer division or modulo by zero'')
          else Inr (1 + digest mod train_users))"

subsection \<open>Module state (lines 54--91)\<close>

definition TOP_K :: int where
  "TOP_K = 10"

text \<open>
  The module-level values the handler reads. A data frame is the list of its rows
  \<open>(userID, itemID, rating)\<close>; the types of item ids, ratings and predicted scores are
  left open. \<open>train_users\<close> is \<^verbatim>\<open>len(train['userID'].unique())\<close>. The function
  \<^verbatim>\<open>compute_ranking_predictions\<close> belongs to the \<^verbatim>\<open>reco_utils\<close> library: it is a parameter.
  The field of this name is the library function on a server where it returns a data
  frame of predictions \<open>(userID, itemID, prediction)\<close> for every argument.
\<close>

record ('m, 'i, 'r, 'p) globals =
  train_users :: int
  test :: "(int \<times> 'i \<times> 'r) list"
  model :: 'm
  compute_ranking_predictions :: "'m \<Rightarrow> (int \<times> 'i \<times> 'r) list \<Rightarrow> (int \<times> 'i \<times> 'p) list"

text \<open>\<^verbatim>\<open>test[test['userID'] == user_id]\<close>: the held-out rows of one user.\<close>

definition held_out :: "('m, 'i, 'r, 'p) globals \<Rightarrow> int \<Rightarrow> (int \<times> 'i \<times> 'r) list" where
  "held_out g uid = filter (\<lambda>row. fst row = uid) (test g)"

subsection \<open>ListRecommendations (lines 126--152)\<close>

record ListRecommendationsRequest =
  user_id :: string
  product_ids :: "string list"

record ListRecommendationsResponse =
  response_product_ids :: "string list"

definition prod_list :: "string list" where
  "prod_list = [''1YMWWN1N4O'', ''L9ECAV7KIM'', ''LS4PSXUNUM'', ''9SIQT8TOJO'', ''OLJCESPC7Z'']"

text \<open>
  The handler resolves the user, computes the predictions for the user's held-out rows,
  and answers with \<open>prod_list\<close>; \<open>predictions\<close> is not used again. The handler has no
  \<^verbatim>\<open>try\<close>: an exception of the resolution or of the library call leaves it.

  In \<open>ListRecommendations_calling score\<close> the library call is \<open>score\<close>, which returns the
  predictions or raises. \<open>ListRecommendations\<close> is the handler on a server whose library
  function returns for every argument.
\<close>

definition ListRecommendations_calling ::
  "('m \<Rightarrow> (int \<times> 'i \<times> 'r) list \<Rightarrow> error + (int \<times> 'i \<times> 'p) list)
     \<Rightarrow> ('m, 'i, 'r, 'p) globals \<Rightarrow> ListRecommendationsRequest
     \<Rightarrow> (error + ListRecommendationsResponse) \<times> event list" where
  "ListRecommendations_calling score g request =
     (case Resolve (train_users g) (user_id request) of
        Inl e \<Rightarrow> (Inl e, [])
      | Inr uid \<Rightarrow>
          (case score (model g) (held_out g uid) of
             Inl e \<Rightarrow> (Inl e, [])
           | Inr predictions \<Rightarrow>
               (let response = \<lparr>response_product_ids = [] @ prod_list\<rparr>
                in (Inr response,
                    [LogInfo (''[Recv ListRecommendations] product_ids=''
                              @ repr_list prod_list)]))))"

definition ListRecommendations ::
  "('m, 'i, 'r, 'p) globals \<Rightarrow> ListRecommendationsRequest
     \<Rightarrow> (error + ListRecommendationsResponse) \<times> event list" where
  "ListRecommendations g request =
     ListRecommendations_calling (\<lambda>m rows. Inr (compute_ranking_predictions g m rows))
       g request"

subsection \<open>Health protocol (lines 154--160)\<close>

text \<open>
  Modelled from the spec: the enumeration of serving statuses. It is declared in the
  generated module \<^verbatim>\<open>health_pb2\<close> of the health-checking package, which is not part of
  the sources. Its members are the three that section 6 of the design document lists
  and \<open>SERVICE_UNKNOWN\<close>, the fourth member of the package's enumeration. No member is
  called \<^verbatim>\<open>UNIMPLEMENTED\<close>.

  \<open>HealthCheckResponse_getattr name\<close> is the attribute lookup
  \<^verbatim>\<open>health_pb2.HealthCheckResponse.name\<close>: a member of the enumeration, or
  \<^verbatim>\<open>AttributeError\<close> for any other name.
\<close>

datatype ServingStatus = UNKNOWN | SERVING | NOT_SERVING | SERVICE_UNKNOWN

record HealthCheckResponse =
  status :: ServingStatus

definition HealthCheckResponse_getattr :: "string \<Rightarrow> error + ServingStatus" where
  "HealthCheckResponse_getattr name =
     (if name = ''UNKNOWN'' then Inr UNKNOWN
      else if name = ''SERVING'' then Inr SERVING
      else if name = ''NOT_SERVING'' then Inr NOT_SERVING
      else if name = ''SERVICE_UNKNOWN'' then Inr SERVICE_UNKNOWN
      else Inl (Error AttributeError
             (''type object '' @ repr_str ''HealthCheckResponse''
                @ '' has no attribute '' @ repr_str name)))"

text \<open>
  Both handlers evaluate the attribute first and build the response from it; neither
  has a \<^verbatim>\<open>try\<close>.
\<close>

definition Check :: "'request \<Rightarrow> 'context \<Rightarrow> error + HealthCheckResponse" where
  "Check request context =
     (case HealthCheckResponse_getattr ''SERVING'' of
        Inl e \<Rightarrow> Inl e
      | Inr s \<Rightarrow> Inr \<lparr>status = s\<rparr>)"

definition Watch :: "'request \<Rightarrow> 'context \<Rightarrow> error + HealthCheckResponse" where
  "Watch request context =
     (case HealthCheckResponse_getattr ''UNIMPLEMENTED'' of
        Inl e \<Rightarrow> Inl e
      | Inr s \<Rightarrow> Inr \<lparr>status = s\<rparr>)"

subsection \<open>A serving process\<close>

text \<open>
  What persists between two calls: the module's values, which are assigned when the
  module is loaded and which no handler assigns, and the log, to which every call
  appends. \<open>serve\<close> handles one call; \<open>serve_all\<close> handles a sequence of calls, one after
  the other. (Each call of \<^verbatim>\<open>hashlib.sha1\<close> builds a hash object of its own, and the
  digest takes no seed.)
\<close>

datatype rpc =
  Call_ListRecommendations ListRecommendationsRequest
  | Call_Check
  | Call_Watch

datatype reply =
  Reply_ListRecommendations "error + ListRecommendationsResponse"
  | Reply_Health "error + HealthCheckResponse"

record ('m, 'i, 'r, 'p) process =
  module_globals :: "('m, 'i, 'r, 'p) globals"
  logged :: "event list"

fun serve :: "('m, 'i, 'r, 'p) process \<Rightarrow> rpc \<Rightarrow> reply \<times> ('m, 'i, 'r, 'p) process" where
  "serve p (Call_ListRecommendations request) =
     (case ListRecommendations (module_globals p) request of
        (result, evs) \<Rightarrow> (Reply_ListRecommendations result, p\<lparr>logged := logged p @ evs\<rparr>))"
| "serve p Call_Check = (Reply_Health (Check () ()), p)"
| "serve p Call_Watch = (Reply_Health (Watch () ()), p)"

fun serve_all ::
  "('m, 'i, 'r, 'p) process \<Rightarrow> rpc list \<Rightarrow> reply list \<times> ('m, 'i, 'r, 'p) process" where
  "serve_all p [] = ([], p)"
| "serve_all p (call # calls) =
     (case serve p call of
        (r, p') \<Rightarrow> (case serve_all p' calls of (rs, p'') \<Rightarrow> (r # rs, p'')))"

subsection \<open>The ranking of the design document\<close>

text \<open>
  Section 4.2, step 4 of the design document, in its words: score the candidates, sort
  descending by score, ties broken by ascending item id, and keep the first K entries.
  This definition follows the document, not the source; it is what the handler's answer
  is compared with.
\<close>

fun ranks_before :: "('i::linorder) \<times> ('p::linorder) \<Rightarrow> 'i \<times> 'p \<Rightarrow> bool" where
  "ranks_before (i, s) (j, t) = (t < s \<or> (s = t \<and> i \<le> j))"

fun insert_ranked :: "('i::linorder) \<times> ('p::linorder) \<Rightarrow> ('i \<times> 'p) list \<Rightarrow> ('i \<times> 'p) list" where
  "insert_ranked x [] = [x]"
| "insert_ranked x (y # ys) =
     (if ranks_before x y then x # y # ys else y # insert_ranked x ys)"

fun sort_ranked :: "(('i::linorder) \<times> ('p::linorder)) list \<Rightarrow> ('i \<times> 'p) list" where
  "sort_ranked [] = []"
| "sort_ranked (x # xs) = insert_ranked x (sort_ranked xs)"

definition spec_top_k :: "(int \<times> ('i::linorder) \<times> ('p::linorder)) list \<Rightarrow> 'i list" where
  "spec_top_k predictions = take (nat TOP_K) (map fst (sort_ranked (map snd predictions)))"

subsection \<open>The process environment\<close>

text \<open>
  What the startup code reads from outside: the environment variables, and the outcome
  of each call it makes into the Google Cloud libraries (\<open>None\<close>: the call returns;
  \<open>Some exc\<close>: it raises \<open>exc\<close>). \<open>googlecloudprofiler_start w retry\<close> is the outcome of
  the attempt numbered \<open>retry\<close>.
\<close>

record world =
  environ :: "string \<rightharpoonup> string"
  googlecloudprofiler_start :: "int \<Rightarrow> error option"
  StackdriverExporter :: "error option"
  googleclouddebugger_enable :: "error option"

text \<open>Sequencing, and \<^verbatim>\<open>try: body except (classes): handler\<close>.\<close>

definition and_then ::
  "(error + 'a) \<times> event list \<Rightarrow> ('a \<Rightarrow> (error + 'b) \<times> event list)
     \<Rightarrow> (error + 'b) \<times> event list" where
  "and_then m f =
     (case m of
        (Inl e, evs) \<Rightarrow> (Inl e, evs)
      | (Inr x, evs) \<Rightarrow> (case f x of (r, evs') \<Rightarrow> (r, evs @ evs')))"

definition try_except ::
  "(error + 'a) \<times> event list \<Rightarrow> exc_class list \<Rightarrow> (error + 'a) \<times> event list
     \<Rightarrow> (error + 'a) \<times> event list" where
  "try_except body classes handler =
     (case body of
        (Inl e, evs) \<Rightarrow>
          if list_ex (isinstance e) classes
          then (case handler of (r, evs') \<Rightarrow> (r, evs @ evs'))
          else (Inl e, evs)
      | (Inr x, evs) \<Rightarrow> (Inr x, evs))"

text \<open>\<^verbatim>\<open>"%d" % n\<close>, and \<^verbatim>\<open>range(a, b)\<close>.\<close>

fun str_nat :: "nat \<Rightarrow> string" where
  "str_nat n =
     (if n < 10 then [char_of (48 + n)]
      else str_nat (n div 10) @ [char_of (48 + n mod 10)])"

declare str_nat.simps [simp del]

definition str_int :: "int \<Rightarrow> string" where
  "str_int i = (if i < 0 then ''-'' @ str_nat (nat (- i)) else str_nat (nat i))"

definition py_range :: "int \<Rightarrow> int \<Rightarrow> int list" where
  "py_range a b = [a..b - 1]"

subsection \<open>initStackdriverProfiling (lines 94--122)\<close>

text \<open>
  The body of the \<^verbatim>\<open>for retry in range(1, 4)\<close> loop, over the values of \<open>retry\<close> still to
  come. A successful start returns from the function. \<^verbatim>\<open>except (BaseException)\<close> is
  written as the test it is; the handler logs, and sleeps one second whatever the
  message says. \<open>start_argument\<close> is the \<^verbatim>\<open>project_id\<close> argument of the call: it is passed
  only when the variable is set and not empty.
\<close>

definition start_argument :: "string option \<Rightarrow> string option" where
  "start_argument project_id =
     (if project_id \<noteq> None \<and> project_id \<noteq> Some [] then project_id else None)"

fun profiler_retries :: "world \<Rightarrow> string option \<Rightarrow> int list \<Rightarrow> (error + unit) \<times> event list" where
  "profiler_retries w project_id [] = (Inr (), [])"
| "profiler_retries w project_id (retry # rest) =
     (case googlecloudprofiler_start w retry of
        None \<Rightarrow>
          (Inr (),
           [ProfilerStart (start_argument project_id),
            LogInfo ''Successfully started Stackdriver Profiler.''])
      | Some exc \<Rightarrow>
          if isinstance exc BaseException then
            (case profiler_retries w project_id rest of
               (r, evs) \<Rightarrow>
                 (r, [ProfilerStart (start_argument project_id),
                      LogInfo (''Unable to start Stackdriver Profiler Python agent. ''
                               @ exc_str exc)]
                     @ (if retry < 4 then
                          [LogInfo (''Sleeping '' @ str_int (retry * 10)
                             @ '' seconds to retry Stackdriver Profiler agent initialization''),
                           Sleep 1]
                        else
                          [LogWarning
                             ''Could not initialize Stackdriver Profiler after retrying, giving up''])
                     @ evs))
          else (Inl exc, [ProfilerStart (start_argument project_id)]))"

definition initStackdriverProfiling :: "world \<Rightarrow> (error + unit) \<times> event list" where
  "initStackdriverProfiling w =
     profiler_retries w (environ w ''GCP_PROJECT_ID'') (py_range 1 4)"

subsection \<open>Startup (lines 163--228)\<close>

datatype tracer_interceptor =
  OpenCensusServerInterceptor
  | OpenCensusServerInterceptor_exporting "string option"

record grpc_server =
  max_workers :: int
  interceptors :: "tracer_interceptor list"
  insecure_port :: string

definition profiler_block :: "world \<Rightarrow> (error + unit) \<times> event list" where
  "profiler_block w =
     try_except
       (if environ w ''DISABLE_PROFILER'' \<noteq> None then (Inl (Error KeyError []), [])
        else and_then (Inr (), [LogInfo ''Profiler enabled.''])
               (\<lambda>u. initStackdriverProfiling w))
       [KeyError]
       (Inr (), [LogInfo ''Profiler disabled.''])"

definition tracing_block :: "world \<Rightarrow> (error + tracer_interceptor) \<times> event list" where
  "tracing_block w =
     try_except
       (if environ w ''DISABLE_TRACING'' \<noteq> None then (Inl (Error KeyError []), [])
        else and_then (Inr (), [LogInfo ''Tracing enabled.''])
               (\<lambda>u. case StackdriverExporter w of
                       Some exc \<Rightarrow> (Inl exc, [])
                     | None \<Rightarrow>
                         (Inr (OpenCensusServerInterceptor_exporting
                                 (environ w ''GCP_PROJECT_ID'')), [])))
       [KeyError, DefaultCredentialsError]
       (Inr OpenCensusServerInterceptor, [LogInfo ''Tracing disabled.''])"

definition debugger_block :: "world \<Rightarrow> (error + unit) \<times> event list" where
  "debugger_block w =
     try_except
       (if environ w ''DISABLE_DEBUGGER'' \<noteq> None then (Inl (Error KeyError []), [])
        else and_then (Inr (), [LogInfo ''Debugger enabled.''])
               (\<lambda>u. try_except
                       (case googleclouddebugger_enable w of
                          Some exc \<Rightarrow> (Inl exc, [])
                        | None \<Rightarrow> (Inr (), []))
                       [Exception, DefaultCredentialsError]
                       (Inr (), [LogError ''Could not enable debugger'', PrintExc,
                                 LogError ''None''])))
       [Exception, DefaultCredentialsError]
       (Inr (), [LogInfo ''Debugger disabled.''])"

text \<open>
  The main block down to \<^verbatim>\<open>server.start()\<close>. What follows in the source is the loop
  that sleeps until the process is interrupted; it is entered only when \<open>main\<close> has
  returned a server.
\<close>

definition main :: "world \<Rightarrow> (error + grpc_server) \<times> event list" where
  "main w =
     and_then (Inr (), [LogInfo ''initializing recommendationservice'']) (\<lambda>u.
     and_then (profiler_block w) (\<lambda>u.
     and_then (tracing_block w) (\<lambda>tracer_interceptor.
     and_then (debugger_block w) (\<lambda>u.
       (let port = (case environ w ''PORT'' of None \<Rightarrow> ''8080'' | Some p \<Rightarrow> p);
            catalog_addr =
              (case environ w ''PRODUCT_CATALOG_SERVICE_ADDR'' of None \<Rightarrow> [] | Some a \<Rightarrow> a)
        in if catalog_addr = [] then
             (Inl (Error Exception
                     ''PRODUCT_CATALOG_SERVICE_ADDR environment variable not set''), [])
           else
             (Inr \<lparr>max_workers = 10, interceptors = [tracer_interceptor],
                   insecure_port = ''[::]:'' @ port\<rparr>,
              [LogInfo (''product catalog address: '' @ catalog_addr),
               InsecureChannel catalog_addr,
               GrpcServer 10,
               AddRecommendationServicer,
               AddHealthServicer,
               LogInfo (''listening on port: '' @ port),
               AddInsecurePort (''[::]:'' @ port),
               ServerStart]))))))"

text \<open>Observations on a list of events.\<close>

fun is_listen :: "event \<Rightarrow> bool" where
  "is_listen (AddInsecurePort a) = True"
| "is_listen ServerStart = True"
| "is_listen e = False"

fun is_ProfilerStart :: "event \<Rightarrow> bool" where
  "is_ProfilerStart (ProfilerStart p) = True"
| "is_ProfilerStart e = False"

fun is_LogWarning :: "event \<Rightarrow> bool" where
  "is_LogWarning (LogWarning m) = True"
| "is_LogWarning e = False"

fun sleeps :: "event list \<Rightarrow> int list" where
  "sleeps [] = []"
| "sleeps (Sleep d # evs) = d # sleeps evs"
| "sleeps (e # evs) = sleeps evs"

subsection \<open>Concrete inputs\<close>

text \<open>
  A server with five training users. The token abc resolves to user 3, who has two
  held-out rows; the empty token resolves to user 1, who has none. The scoring function
  predicts the held-out rating.
\<close>

definition example_scorer :: "unit \<Rightarrow> (int \<times> string \<times> int) list \<Rightarrow> (int \<times> string \<times> int) list" where
  "example_scorer m rows = rows"

definition example_globals :: "(unit, string, int, int) globals" where
  "example_globals =
     \<lparr>train_users = 5,
      test = [(3, ''ITEM-A'', 3), (2, ''ITEM-C'', 4), (3, ''ITEM-B'', 5)],
      model = (),
      compute_ranking_predictions = example_scorer\<rparr>"

text \<open>A library call that returns the held-out ratings, and one that raises.\<close>

definition example_returning_scorer ::
  "unit \<Rightarrow> (int \<times> string \<times> int) list \<Rightarrow> error + (int \<times> string \<times> int) list" where
  "example_returning_scorer m rows = Inr rows"


definition example_request :: ListRecommendationsRequest where
  "example_request = \<lparr>user_id = ''abc'', product_ids = []\<rparr>"

definition example_request_anonymous :: ListRecommendationsRequest where
  "example_request_anonymous = \<lparr>user_id = [], product_ids = []\<rparr>"

definition example_request_excluding :: ListRecommendationsRequest where
  "example_request_excluding = \<lparr>user_id = ''abc'', product_ids = [''1YMWWN1N4O'']\<rparr>"

text \<open>A process that has served nothing yet, and three calls.\<close>

definition example_process :: "(unit, string, int, int) process" where
  "example_process = \<lparr>module_globals = example_globals, logged = []\<rparr>"

definition example_calls :: "rpc list" where
  "example_calls =
     [Call_ListRecommendations example_request_excluding, Call_Watch,
      Call_ListRecommendations example_request_anonymous]"

text \<open>
  An environment without the catalog address, in which every optional subsystem fails
  to initialise; and the same environment with the address set.
\<close>

definition example_world :: world where
  "example_world =
     \<lparr>environ = [''PORT'' \<mapsto> ''9090''],
      googlecloudprofiler_start = (\<lambda>retry. Some (Error Exception ''no credentials'')),
      StackdriverExporter = Some (Error DefaultCredentialsError ''no credentials''),
      googleclouddebugger_enable = Some (Error Exception ''no credentials'')\<rparr>"

definition example_world_configured :: world where
  "example_world_configured =
     example_world\<lparr>environ :=
       [''PORT'' \<mapsto> ''9090'', ''PRODUCT_CATALOG_SERVICE_ADDR'' \<mapsto> ''productcatalogservice:3550'']\<rparr>"

section \<open>Theorems\<close>

subsection \<open>The digest as a number\<close>

text \<open>
  Parsing the hexadecimal digest gives the digest's bytes read as one big-endian number;
  a SHA-1 digest has 20 bytes, so the parse never fails.
\<close>

lemma length_sha1: "length (sha1 m) = 20"
  by (simp add: sha1_def word_bytes_def split: prod.splits)

lemma digit_value_hex_digit: "n < 16 \<Longrightarrow> digit_value (hex_digit n) = Some (int n)"
  by (auto simp: digit_value_def hex_digit_def Let_def)

lemma uint_nibbles: "uint (b :: byte) = int (unat b div 16) * 16 + int (unat b mod 16)"
  by (simp add: zdiv_int zmod_int)

lemma parse_digits_hexdigest:
  "parse_digits acc (hexdigest bs) = Some (foldl (\<lambda>a b. a * 256 + uint b) acc bs)"
proof (induction bs arbitrary: acc)
  case Nil
  show ?case by (simp add: hexdigest_def)
next
  case (Cons b bs)
  have hi: "unat b div 16 < 16"
    using unsigned_less [of b, where 'a = nat] by simp
  have lo: "unat b mod 16 < 16" by simp
  have step: "parse_digits acc (hexdigest (b # bs)) =
      parse_digits ((acc * 16 + int (unat b div 16)) * 16 + int (unat b mod 16)) (hexdigest bs)"
    by (simp add: hexdigest_def digit_value_hex_digit [OF hi] digit_value_hex_digit [OF lo])
  have eq: "(acc * 16 + int (unat b div 16)) * 16 + int (unat b mod 16) = acc * 256 + uint b"
    by (simp add: uint_nibbles [of b] algebra_simps)
  have "parse_digits acc (hexdigest (b # bs)) = parse_digits (acc * 256 + uint b) (hexdigest bs)"
    unfolding step eq ..
  also have "\<dots> = Some (foldl (\<lambda>a b. a * 256 + uint b) (acc * 256 + uint b) bs)"
    by (rule Cons.IH)
  finally show ?case by simp
qed

lemma hexdigest_empty_iff: "hexdigest bs = [] \<longleftrightarrow> bs = []"
  by (cases bs) (simp_all add: hexdigest_def)

lemma int_base16_hexdigest: "bs \<noteq> [] \<Longrightarrow> int_base16 (hexdigest bs) = Inr (digest_int bs)"
  by (simp add: int_base16_def hexdigest_empty_iff parse_digits_hexdigest digest_int_def)

lemma Resolve_eq:
  "N \<noteq> 0 \<Longrightarrow> Resolve N token = Inr (1 + digest_int (sha1 (encode_utf8 token)) mod N)"
proof -
  assume "N \<noteq> 0"
  have "sha1 (encode_utf8 token) \<noteq> []"
    using length_sha1 [of "encode_utf8 token"] by auto
  then show ?thesis
    using \<open>N \<noteq> 0\<close> by (simp add: Resolve_def int_base16_hexdigest)
qed

lemma Resolve_zero:
  "Resolve 0 token = Inl (Error ZeroDivisionError ''integer division or modulo by zero'')"
proof -
  have "sha1 (encode_utf8 token) \<noteq> []"
    using length_sha1 [of "encode_utf8 token"] by auto
  then show ?thesis
    by (simp add: Resolve_def int_base16_hexdigest)
qed

subsection \<open>Three digests\<close>

text \<open>
  The model of SHA-1 run on three messages: the token abc and the 56-byte message of
  FIPS 180 (the two test messages of the standard, of one and of two blocks), and the
  empty token. The results are the published digests.
\<close>

lemma expand_numeral:
  "expand (numeral k) w =
     expand (pred_numeral k)
       (w @ [rotl 1 (w ! (length w - 3) XOR w ! (length w - 8)
                     XOR w ! (length w - 14) XOR w ! (length w - 16))])"
  by (simp add: numeral_eq_Suc)

lemma rounds_append:
  "rounds t (xs @ ys) s = rounds (t + length xs) ys (rounds t xs s)"
proof (induction xs arbitrary: t s)
  case Nil
  show ?case by simp
next
  case (Cons x xs)
  obtain a b c d e where s: "s = (a, b, c, d, e)"
    by (cases s)
  show ?case
    unfolding s by (simp add: Cons.IH)
qed

text \<open>
  The digest of the token abc, computed step by step: the padded block, its 16 words, the
  schedule of 80 words, the 80 rounds in four runs of 20, and the digest.
\<close>

lemma sha1_abc_padded: "sha1_pad (encode_utf8 ''abc'') =
     [0x61, 0x62, 0x63, 0x80, 0x00, 0x00, 0x00, 0x00,
      0x00, 0x00, 0x00, 0x00, 0x00, 0x00, 0x00, 0x00,
      0x00, 0x00, 0x00, 0x00, 0x00, 0x00, 0x00, 0x00,
      0x00, 0x00, 0x00, 0x00, 0x00, 0x00, 0x00, 0x00,
      0x00, 0x00, 0x00, 0x00, 0x00, 0x00, 0x00, 0x00,
      0x00, 0x00, 0x00, 0x00, 0x00, 0x00, 0x00, 0x00,
      0x00, 0x00, 0x00, 0x00, 0x00, 0x00, 0x00, 0x00,
      0x00, 0x00, 0x00, 0x00, 0x00, 0x00, 0x00, 0x18]"
  by code_simp

lemma sha1_abc_words: "words_of_block (sha1_pad (encode_utf8 ''abc'')) =
     [0x61626380, 0x00000000, 0x00000000, 0x00000000, 0x00000000, 0x00000000,
      0x00000000, 0x00000000, 0x00000000, 0x00000000, 0x00000000, 0x00000000,
      0x00000000, 0x00000000, 0x00000000, 0x00000018]"
  unfolding sha1_abc_padded by (simp add: word_of_bytes_def)

lemma sha1_abc_schedule: "expand 64 (words_of_block (sha1_pad (encode_utf8 ''abc''))) =
     [0x61626380, 0x00000000, 0x00000000, 0x00000000, 0x00000000, 0x00000000,
      0x00000000, 0x00000000, 0x00000000, 0x00000000, 0x00000000, 0x00000000,
      0x00000000, 0x00000000, 0x00000000, 0x00000018, 0xC2C4C700, 0x00000000,
      0x00000030, 0x85898E01, 0x00000000, 0x00000060, 0x0B131C03, 0x00000030,
      0x85898EC1, 0x16263806, 0x00000000, 0x00000180, 0x2C4C700C, 0x000000F0,
      0x93AFB507, 0x5898E048, 0x8E9A9202, 0x00000600, 0xB131C0F0, 0x16263BC6,
      0x4EBED41E, 0x626380A1, 0x16263806, 0x000018C0, 0xD2E138C4, 0x00000F00,
      0x3AFB5079, 0x898E04E5, 0xE2BA3C2B, 0x000060C0, 0x053A37CD, 0x74458547,
      0xDA9415ED, 0x26380A16, 0x626383A1, 0x4EBF54DE, 0x3835B44B, 0x0000F600,
      0x1E84C7A3, 0x98E04D98, 0x651D16A0, 0x62658CA1, 0x458544D6, 0x44584CB7,
      0x7BA06619, 0x6380AEA2, 0x0AE55269, 0x627B49A1, 0x7CD45C9D, 0x000F0000,
      0xFB50753A, 0xEC6765E8, 0xBA3C2BE2, 0x0060C000, 0x3A37CD05, 0x458546F4,
      0xB8599DD6, 0x380A1A26, 0x01E02203, 0xE7CC3456, 0xE6E60B69, 0x00F60A00,
      0x5795EF4F, 0x822E0879]"
  unfolding sha1_abc_words by (simp add: expand_numeral rotl_def)

lemma sha1_abc_rounds_0: "rounds 0
     [0x61626380, 0x00000000, 0x00000000, 0x00000000, 0x00000000, 0x00000000,
      0x00000000, 0x00000000, 0x00000000, 0x00000000, 0x00000000, 0x00000000,
      0x00000000, 0x00000000, 0x00000000, 0x00000018, 0xC2C4C700, 0x00000000,
      0x00000030, 0x85898E01]
     (0x67452301, 0xEFCDAB89, 0x98BADCFE, 0x10325476, 0xC3D2E1F0) =
     (0xFD9E1D7D, 0xDC64901D, 0x20AA99CA, 0xD3A49608, 0xC82F758B)"
  by (simp add: rotl_def f_t_def k_t_def)

lemma sha1_abc_rounds_20: "rounds 20
     [0x00000000, 0x00000060, 0x0B131C03, 0x00000030, 0x85898EC1, 0x16263806,
      0x00000000, 0x00000180, 0x2C4C700C, 0x000000F0, 0x93AFB507, 0x5898E048,
      0x8E9A9202, 0x00000600, 0xB131C0F0, 0x16263BC6, 0x4EBED41E, 0x626380A1,
      0x16263806, 0x000018C0]
     (0xFD9E1D7D, 0xDC64901D, 0x20AA99CA, 0xD3A49608, 0xC82F758B) =
     (0x32DE1CBA, 0x4C986405, 0xF718E5CF, 0x03D447F6, 0xF72EEC32)"
  by (simp add: rotl_def f_t_def k_t_def)

lemma sha1_abc_rounds_40: "rounds 40
     [0xD2E138C4, 0x00000F00, 0x3AFB5079, 0x898E04E5, 0xE2BA3C2B, 0x000060C0,
      0x053A37CD, 0x74458547, 0xDA9415ED, 0x26380A16, 0x626383A1, 0x4EBF54DE,
      0x3835B44B, 0x0000F600, 0x1E84C7A3, 0x98E04D98, 0x651D16A0, 0x62658CA1,
      0x458544D6, 0x44584CB7]
     (0x32DE1CBA, 0x4C986405, 0xF718E5CF, 0x03D447F6, 0xF72EEC32) =
     (0x3F52DE5A, 0x09D785FD, 0x3498BFD4, 0xF211824F, 0xD79915AB)"
  by (simp add: rotl_def f_t_def k_t_def)

lemma sha1_abc_rounds_60: "rounds 60
     [0x7BA06619, 0x6380AEA2, 0x0AE55269, 0x627B49A1, 0x7CD45C9D, 0x000F0000,
      0xFB50753A, 0xEC6765E8, 0xBA3C2BE2, 0x0060C000, 0x3A37CD05, 0x458546F4,
      0xB8599DD6, 0x380A1A26, 0x01E02203, 0xE7CC3456, 0xE6E60B69, 0x00F60A00,
      0x5795EF4F, 0x822E0879]
     (0x3F52DE5A, 0x09D785FD, 0x3498BFD4, 0xF211824F, 0xD79915AB) =
     (0x42541B35, 0x5738D5E1, 0x21834873, 0x681E6DF6, 0xD8FDF6AD)"
  by (simp add: rotl_def f_t_def k_t_def)

lemma sha1_abc_rounds:
  "rounds 0 (expand 64 (words_of_block (sha1_pad (encode_utf8 ''abc''))))
     (0x67452301, 0xEFCDAB89, 0x98BADCFE, 0x10325476, 0xC3D2E1F0) =
     (0x42541B35, 0x5738D5E1, 0x21834873, 0x681E6DF6, 0xD8FDF6AD)"
proof -
  let ?A = "[0x61626380, 0x00000000, 0x00000000, 0x00000000, 0x00000000, 0x00000000,
       0x00000000, 0x00000000, 0x00000000, 0x00000000, 0x00000000, 0x00000000,
       0x00000000, 0x00000000, 0x00000000, 0x00000018, 0xC2C4C700, 0x00000000,
       0x00000030, 0x85898E01] :: u32 list"
  let ?B = "[0x00000000, 0x00000060, 0x0B131C03, 0x00000030, 0x85898EC1, 0x16263806,
       0x00000000, 0x00000180, 0x2C4C700C, 0x000000F0, 0x93AFB507, 0x5898E048,
       0x8E9A9202, 0x00000600, 0xB131C0F0, 0x16263BC6, 0x4EBED41E, 0x626380A1,
       0x16263806, 0x000018C0] :: u32 list"
  let ?C = "[0xD2E138C4, 0x00000F00, 0x3AFB5079, 0x898E04E5, 0xE2BA3C2B, 0x000060C0,
       0x053A37CD, 0x74458547, 0xDA9415ED, 0x26380A16, 0x626383A1, 0x4EBF54DE,
       0x3835B44B, 0x0000F600, 0x1E84C7A3, 0x98E04D98, 0x651D16A0, 0x62658CA1,
       0x458544D6, 0x44584CB7] :: u32 list"
  let ?D = "[0x7BA06619, 0x6380AEA2, 0x0AE55269, 0x627B49A1, 0x7CD45C9D, 0x000F0000,
       0xFB50753A, 0xEC6765E8, 0xBA3C2BE2, 0x0060C000, 0x3A37CD05, 0x458546F4,
       0xB8599DD6, 0x380A1A26, 0x01E02203, 0xE7CC3456, 0xE6E60B69, 0x00F60A00,
       0x5795EF4F, 0x822E0879] :: u32 list"
  let ?s0 = "(0x67452301, 0xEFCDAB89, 0x98BADCFE, 0x10325476, 0xC3D2E1F0) :: sha_state"
  let ?s20 = "(0xFD9E1D7D, 0xDC64901D, 0x20AA99CA, 0xD3A49608, 0xC82F758B) :: sha_state"
  let ?s40 = "(0x32DE1CBA, 0x4C986405, 0xF718E5CF, 0x03D447F6, 0xF72EEC32) :: sha_state"
  let ?s60 = "(0x3F52DE5A, 0x09D785FD, 0x3498BFD4, 0xF211824F, 0xD79915AB) :: sha_state"
  have split: "expand 64 (words_of_block (sha1_pad (encode_utf8 ''abc''))) = ?A @ ?B @ ?C @ ?D"
    unfolding sha1_abc_schedule by simp
  have a: "rounds 0 (?A @ ?B @ ?C @ ?D) ?s0 =
             rounds (0 + length ?A) (?B @ ?C @ ?D) (rounds 0 ?A ?s0)"
    by (rule rounds_append)
  have a': "0 + length ?A = 20"
    by simp
  have b: "rounds 20 (?B @ ?C @ ?D) ?s20 =
             rounds (20 + length ?B) (?C @ ?D) (rounds 20 ?B ?s20)"
    by (rule rounds_append)
  have b': "20 + length ?B = 40"
    by simp
  have c: "rounds 40 (?C @ ?D) ?s40 = rounds (40 + length ?C) ?D (rounds 40 ?C ?s40)"
    by (rule rounds_append)
  have c': "40 + length ?C = 60"
    by simp
  show ?thesis
    unfolding split a a' sha1_abc_rounds_0 b b' sha1_abc_rounds_20 c c' sha1_abc_rounds_40 sha1_abc_rounds_60
    by (rule refl)
qed

lemma sha1_abc_digest: "sha1 (encode_utf8 ''abc'') =
     [0xA9, 0x99, 0x3E, 0x36, 0x47, 0x06, 0x81, 0x6A, 0xBA, 0x3E,
      0x25, 0x71, 0x78, 0x50, 0xC2, 0x6C, 0x9C, 0xD0, 0xD8, 0x9D]"
proof -
  have blk: "blocks (sha1_pad (encode_utf8 ''abc'')) = [sha1_pad (encode_utf8 ''abc'')]"
    unfolding sha1_abc_padded by simp
  show ?thesis
    by (simp add: sha1_def blk compress_def sha1_abc_rounds word_bytes_def)
qed

lemma sha1_abc_digest_int: "digest_int (sha1 (encode_utf8 ''abc'')) = 968236873715988614170569073515315707566766479517"
  unfolding sha1_abc_digest by (simp add: digest_int_def)

text \<open>
  The digest of the empty token, computed step by step: the padded block, its 16 words, the
  schedule of 80 words, the 80 rounds in four runs of 20, and the digest.
\<close>

lemma sha1_empty_padded: "sha1_pad (encode_utf8 []) =
     [0x80, 0x00, 0x00, 0x00, 0x00, 0x00, 0x00, 0x00,
      0x00, 0x00, 0x00, 0x00, 0x00, 0x00, 0x00, 0x00,
      0x00, 0x00, 0x00, 0x00, 0x00, 0x00, 0x00, 0x00,
      0x00, 0x00, 0x00, 0x00, 0x00, 0x00, 0x00, 0x00,
      0x00, 0x00, 0x00, 0x00, 0x00, 0x00, 0x00, 0x00,
      0x00, 0x00, 0x00, 0x00, 0x00, 0x00, 0x00, 0x00,
      0x00, 0x00, 0x00, 0x00, 0x00, 0x00, 0x00, 0x00,
      0x00, 0x00, 0x00, 0x00, 0x00, 0x00, 0x00, 0x00]"
  by code_simp

lemma sha1_empty_words: "words_of_block (sha1_pad (encode_utf8 [])) =
     [0x80000000, 0x00000000, 0x00000000, 0x00000000, 0x00000000, 0x00000000,
      0x00000000, 0x00000000, 0x00000000, 0x00000000, 0x00000000, 0x00000000,
      0x00000000, 0x00000000, 0x00000000, 0x00000000]"
  unfolding sha1_empty_padded by (simp add: word_of_bytes_def)

lemma sha1_empty_schedule: "expand 64 (words_of_block (sha1_pad (encode_utf8 []))) =
     [0x80000000, 0x00000000, 0x00000000, 0x00000000, 0x00000000, 0x00000000,
      0x00000000, 0x00000000, 0x00000000, 0x00000000, 0x00000000, 0x00000000,
      0x00000000, 0x00000000, 0x00000000, 0x00000000, 0x00000001, 0x00000000,
      0x00000000, 0x00000002, 0x00000000, 0x00000000, 0x00000004, 0x00000000,
      0x00000002, 0x00000008, 0x00000000, 0x00000000, 0x00000010, 0x00000000,
      0x0000000A, 0x00000020, 0x00000006, 0x00000000, 0x00000040, 0x00000008,
      0x00000028, 0x00000080, 0x00000008, 0x00000000, 0x00000108, 0x00000000,
      0x000000A0, 0x00000200, 0x00000064, 0x00000000, 0x00000408, 0x00000088,
      0x0000029C, 0x00000800, 0x00000080, 0x00000028, 0x00001088, 0x00000000,
      0x00000A40, 0x00002000, 0x00000668, 0x00000080, 0x00004088, 0x00000880,
      0x000028C8, 0x00008000, 0x000008A8, 0x00000080, 0x000108E8, 0x00000000,
      0x0000A000, 0x00020080, 0x00006400, 0x00000000, 0x00040800, 0x00008800,
      0x00029C10, 0x00080000, 0x00008080, 0x00002820, 0x001088C0, 0x00000000,
      0x000A40C0, 0x00200080]"
  unfolding sha1_empty_words by (simp add: expand_numeral rotl_def)

lemma sha1_empty_rounds_0: "rounds 0
     [0x80000000, 0x00000000, 0x00000000, 0x00000000, 0x00000000, 0x00000000,
      0x00000000, 0x00000000, 0x00000000, 0x00000000, 0x00000000, 0x00000000,
      0x00000000, 0x00000000, 0x00000000, 0x00000000, 0x00000001, 0x00000000,
      0x00000000, 0x00000002]
     (0x67452301, 0xEFCDAB89, 0x98BADCFE, 0x10325476, 0xC3D2E1F0) =
     (0xE758E8DA, 0x0B3088DD, 0x8A2A5483, 0xC1AFE45C, 0xF63F5951)"
  by (simp add: rotl_def f_t_def k_t_def)

lemma sha1_empty_rounds_20: "rounds 20
     [0x00000000, 0x00000000, 0x00000004, 0x00000000, 0x00000002, 0x00000008,
      0x00000000, 0x00000000, 0x00000010, 0x00000000, 0x0000000A, 0x00000020,
      0x00000006, 0x00000000, 0x00000040, 0x00000008, 0x00000028, 0x00000080,
      0x00000008, 0x00000000]
     (0xE758E8DA, 0x0B3088DD, 0x8A2A5483, 0xC1AFE45C, 0xF63F5951) =
     (0x9BDBDD71, 0x62273351, 0xEC805E22, 0x413C1D9A, 0x2AEEAE62)"
  by (simp add: rotl_def f_t_def k_t_def)

lemma sha1_empty_rounds_40: "rounds 40
     [0x00000108, 0x00000000, 0x000000A0, 0x00000200, 0x00000064, 0x00000000,
      0x00000408, 0x00000088, 0x0000029C, 0x00000800, 0x00000080, 0x00000028,
      0x00001088, 0x00000000, 0x00000A40, 0x00002000, 0x00000668, 0x00000080,
      0x00004088, 0x00000880]
     (0x9BDBDD71, 0x62273351, 0xEC805E22, 0x413C1D9A, 0x2AEEAE62) =
     (0x9B9D2913, 0x982BCBCA, 0xB86BEAC8, 0xC5A3382E, 0xAF9292FA)"
  by (simp add: rotl_def f_t_def k_t_def)

lemma sha1_empty_rounds_60: "rounds 60
     [0x000028C8, 0x00008000, 0x000008A8, 0x00000080, 0x000108E8, 0x00000000,
      0x0000A000, 0x00020080, 0x00006400, 0x00000000, 0x00040800, 0x00008800,
      0x00029C10, 0x00080000, 0x00008080, 0x00002820, 0x001088C0, 0x00000000,
      0x000A40C0, 0x00200080]
     (0x9B9D2913, 0x982BCBCA, 0xB86BEAC8, 0xC5A3382E, 0xAF9292FA) =
     (0x72F480ED, 0x6E9D9F84, 0x999AE2F1, 0x852DC41A, 0xEC052519)"
  by (simp add: rotl_def f_t_def k_t_def)

lemma sha1_empty_rounds:
  "rounds 0 (expand 64 (words_of_block (sha1_pad (encode_utf8 []))))
     (0x67452301, 0xEFCDAB89, 0x98BADCFE, 0x10325476, 0xC3D2E1F0) =
     (0x72F480ED, 0x6E9D9F84, 0x999AE2F1, 0x852DC41A, 0xEC052519)"
proof -
  let ?A = "[0x80000000, 0x00000000, 0x00000000, 0x00000000, 0x00000000, 0x00000000,
       0x00000000, 0x00000000, 0x00000000, 0x00000000, 0x00000000, 0x00000000,
       0x00000000, 0x00000000, 0x00000000, 0x00000000, 0x00000001, 0x00000000,
       0x00000000, 0x00000002] :: u32 list"
  let ?B = "[0x00000000, 0x00000000, 0x00000004, 0x00000000, 0x00000002, 0x00000008,
       0x00000000, 0x00000000, 0x00000010, 0x00000000, 0x0000000A, 0x00000020,
       0x00000006, 0x00000000, 0x00000040, 0x00000008, 0x00000028, 0x00000080,
       0x00000008, 0x00000000] :: u32 list"
  let ?C = "[0x00000108, 0x00000000, 0x000000A0, 0x00000200, 0x00000064, 0x00000000,
       0x00000408, 0x00000088, 0x0000029C, 0x00000800, 0x00000080, 0x00000028,
       0x00001088, 0x00000000, 0x00000A40, 0x00002000, 0x00000668, 0x00000080,
       0x00004088, 0x00000880] :: u32 list"
  let ?D = "[0x000028C8, 0x00008000, 0x000008A8, 0x00000080, 0x000108E8, 0x00000000,
       0x0000A000, 0x00020080, 0x00006400, 0x00000000, 0x00040800, 0x00008800,
       0x00029C10, 0x00080000, 0x00008080, 0x00002820, 0x001088C0, 0x00000000,
       0x000A40C0, 0x00200080] :: u32 list"
  let ?s0 = "(0x67452301, 0xEFCDAB89, 0x98BADCFE, 0x10325476, 0xC3D2E1F0) :: sha_state"
  let ?s20 = "(0xE758E8DA, 0x0B3088DD, 0x8A2A5483, 0xC1AFE45C, 0xF63F5951) :: sha_state"
  let ?s40 = "(0x9BDBDD71, 0x62273351, 0xEC805E22, 0x413C1D9A, 0x2AEEAE62) :: sha_state"
  let ?s60 = "(0x9B9D2913, 0x982BCBCA, 0xB86BEAC8, 0xC5A3382E, 0xAF9292FA) :: sha_state"
  have split: "expand 64 (words_of_block (sha1_pad (encode_utf8 []))) = ?A @ ?B @ ?C @ ?D"
    unfolding sha1_empty_schedule by simp
  have a: "rounds 0 (?A @ ?B @ ?C @ ?D) ?s0 =
             rounds (0 + length ?A) (?B @ ?C @ ?D) (rounds 0 ?A ?s0)"
    by (rule rounds_append)
  have a': "0 + length ?A = 20"
    by simp
  have b: "rounds 20 (?B @ ?C @ ?D) ?s20 =
             rounds (20 + length ?B) (?C @ ?D) (rounds 20 ?B ?s20)"
    by (rule rounds_append)
  have b': "20 + length ?B = 40"
    by simp
  have c: "rounds 40 (?C @ ?D) ?s40 = rounds (40 + length ?C) ?D (rounds 40 ?C ?s40)"
    by (rule rounds_append)
  have c': "40 + length ?C = 60"
    by simp
  show ?thesis
    unfolding split a a' sha1_empty_rounds_0 b b' sha1_empty_rounds_20 c c' sha1_empty_rounds_40 sha1_empty_rounds_60
    by (rule refl)
qed

lemma sha1_empty_digest: "sha1 (encode_utf8 []) =
     [0xDA, 0x39, 0xA3, 0xEE, 0x5E, 0x6B, 0x4B, 0x0D, 0x32, 0x55,
      0xBF, 0xEF, 0x95, 0x60, 0x18, 0x90, 0xAF, 0xD8, 0x07, 0x09]"
proof -
  have blk: "blocks (sha1_pad (encode_utf8 [])) = [sha1_pad (encode_utf8 [])]"
    unfolding sha1_empty_padded by simp
  show ?thesis
    by (simp add: sha1_def blk compress_def sha1_empty_rounds word_bytes_def)
qed

lemma sha1_empty_digest_int: "digest_int (sha1 (encode_utf8 [])) = 1245845410931227995499360226027473197403882391305"
  unfolding sha1_empty_digest by (simp add: digest_int_def)

text \<open>
  The digest of the 56-byte message of the standard, which takes 2 blocks.
\<close>

lemma sha1_fips_blocks: "blocks (sha1_pad (encode_utf8 ''abcdbcdecdefdefgefghfghighijhijkijkljklmklmnlmnomnopnopq'')) =
    [[0x61, 0x62, 0x63, 0x64, 0x62, 0x63, 0x64, 0x65,
      0x63, 0x64, 0x65, 0x66, 0x64, 0x65, 0x66, 0x67,
      0x65, 0x66, 0x67, 0x68, 0x66, 0x67, 0x68, 0x69,
      0x67, 0x68, 0x69, 0x6A, 0x68, 0x69, 0x6A, 0x6B,
      0x69, 0x6A, 0x6B, 0x6C, 0x6A, 0x6B, 0x6C, 0x6D,
      0x6B, 0x6C, 0x6D, 0x6E, 0x6C, 0x6D, 0x6E, 0x6F,
      0x6D, 0x6E, 0x6F, 0x70, 0x6E, 0x6F, 0x70, 0x71,
      0x80, 0x00, 0x00, 0x00, 0x00, 0x00, 0x00, 0x00],
     [0x00, 0x00, 0x00, 0x00, 0x00, 0x00, 0x00, 0x00,
      0x00, 0x00, 0x00, 0x00, 0x00, 0x00, 0x00, 0x00,
      0x00, 0x00, 0x00, 0x00, 0x00, 0x00, 0x00, 0x00,
      0x00, 0x00, 0x00, 0x00, 0x00, 0x00, 0x00, 0x00,
      0x00, 0x00, 0x00, 0x00, 0x00, 0x00, 0x00, 0x00,
      0x00, 0x00, 0x00, 0x00, 0x00, 0x00, 0x00, 0x00,
      0x00, 0x00, 0x00, 0x00, 0x00, 0x00, 0x00, 0x00,
      0x00, 0x00, 0x00, 0x00, 0x00, 0x00, 0x01, 0xC0]]"
  by code_simp

lemma sha1_fips_schedule_0: "expand 64 (words_of_block
     [0x61, 0x62, 0x63, 0x64, 0x62, 0x63, 0x64, 0x65,
      0x63, 0x64, 0x65, 0x66, 0x64, 0x65, 0x66, 0x67,
      0x65, 0x66, 0x67, 0x68, 0x66, 0x67, 0x68, 0x69,
      0x67, 0x68, 0x69, 0x6A, 0x68, 0x69, 0x6A, 0x6B,
      0x69, 0x6A, 0x6B, 0x6C, 0x6A, 0x6B, 0x6C, 0x6D,
      0x6B, 0x6C, 0x6D, 0x6E, 0x6C, 0x6D, 0x6E, 0x6F,
      0x6D, 0x6E, 0x6F, 0x70, 0x6E, 0x6F, 0x70, 0x71,
      0x80, 0x00, 0x00, 0x00, 0x00, 0x00, 0x00, 0x00]) =
     [0x61626364, 0x62636465, 0x63646566, 0x64656667, 0x65666768, 0x66676869,
      0x6768696A, 0x68696A6B, 0x696A6B6C, 0x6A6B6C6D, 0x6B6C6D6E, 0x6C6D6E6F,
      0x6D6E6F70, 0x6E6F7071, 0x80000000, 0x00000000, 0x0A063A3E, 0xD8DADCDF,
      0xDADCDEC0, 0xC8D2B4BE, 0x6F757B5B, 0x757B5967, 0x8DA16D70, 0xDAEEFABA,
      0xFAF6CAB6, 0xA6FB675A, 0x0C604CC8, 0x604CC02C, 0x49C0E6E2, 0x2EE8CBBC,
      0xCFD72EC4, 0x97E9810E, 0x0989CBE8, 0xF24843FE, 0x5C40D0BA, 0xA8D9CC3B,
      0xB2B9666E, 0xBA7B71B7, 0x20B28A72, 0xB28AF500, 0x8AC87842, 0x289ADDF4,
      0x56D51F21, 0xD96B7FD2, 0x3868E778, 0xAB5E4848, 0x7F0E2118, 0xDE87A111,
      0xE8BE56B0, 0x1A0AE652, 0xCD5611C8, 0x46EF29DC, 0x60D3DA6D, 0xDDF3BA6E,
      0x2737F5E9, 0x4888A710, 0xD2A1177B, 0x9999633B, 0xD6C69D03, 0xCCF6127B,
      0x7C58FE6D, 0xFDD99C68, 0xF8E32074, 0xE0BA3C7D, 0x152198D6, 0x7B3F1982,
      0x37F2D5B7, 0x8596323E, 0x810790D6, 0xBEA0A942, 0x11C7E1B1, 0x6158D101,
      0x5FCD77D9, 0x7F2F12E6, 0xF868CFB1, 0xD6E997E9, 0xF526B852, 0xB7578DCC,
      0x55D99DF4, 0x1FF69958]"
  by (simp add: word_of_bytes_def expand_numeral rotl_def)

lemma sha1_fips_rounds_0_0: "rounds 0
     [0x61626364, 0x62636465, 0x63646566, 0x64656667, 0x65666768, 0x66676869,
      0x6768696A, 0x68696A6B, 0x696A6B6C, 0x6A6B6C6D, 0x6B6C6D6E, 0x6C6D6E6F,
      0x6D6E6F70, 0x6E6F7071, 0x80000000, 0x00000000, 0x0A063A3E, 0xD8DADCDF,
      0xDADCDEC0, 0xC8D2B4BE]
     (0x67452301, 0xEFCDAB89, 0x98BADCFE, 0x10325476, 0xC3D2E1F0) =
     (0x6C445652, 0x944B1BD1, 0x509AE70D, 0x1AC1A012, 0x5098DF8E)"
  by (simp add: rotl_def f_t_def k_t_def)

lemma sha1_fips_rounds_0_20: "rounds 20
     [0x6F757B5B, 0x757B5967, 0x8DA16D70, 0xDAEEFABA, 0xFAF6CAB6, 0xA6FB675A,
      0x0C604CC8, 0x604CC02C, 0x49C0E6E2, 0x2EE8CBBC, 0xCFD72EC4, 0x97E9810E,
      0x0989CBE8, 0xF24843FE, 0x5C40D0BA, 0xA8D9CC3B, 0xB2B9666E, 0xBA7B71B7,
      0x20B28A72, 0xB28AF500]
     (0x6C445652, 0x944B1BD1, 0x509AE70D, 0x1AC1A012, 0x5098DF8E) =
     (0xADEB7478, 0x24957F22, 0x50FE1EBA, 0x564CFF26, 0xAADF0CBB)"
  by (simp add: rotl_def f_t_def k_t_def)

lemma sha1_fips_rounds_0_40: "rounds 40
     [0x8AC87842, 0x289ADDF4, 0x56D51F21, 0xD96B7FD2, 0x3868E778, 0xAB5E4848,
      0x7F0E2118, 0xDE87A111, 0xE8BE56B0, 0x1A0AE652, 0xCD5611C8, 0x46EF29DC,
      0x60D3DA6D, 0xDDF3BA6E, 0x2737F5E9, 0x4888A710, 0xD2A1177B, 0x9999633B,
      0xD6C69D03, 0xCCF6127B]
     (0xADEB7478, 0x24957F22, 0x50FE1EBA, 0x564CFF26, 0xAADF0CBB) =
     (0x9EF775C3, 0xF03D3782, 0xEB029E53, 0xE9A06DC8, 0x1DDB0E44)"
  by (simp add: rotl_def f_t_def k_t_def)

lemma sha1_fips_rounds_0_60: "rounds 60
     [0x7C58FE6D, 0xFDD99C68, 0xF8E32074, 0xE0BA3C7D, 0x152198D6, 0x7B3F1982,
      0x37F2D5B7, 0x8596323E, 0x810790D6, 0xBEA0A942, 0x11C7E1B1, 0x6158D101,
      0x5FCD77D9, 0x7F2F12E6, 0xF868CFB1, 0xD6E997E9, 0xF526B852, 0xB7578DCC,
      0x55D99DF4, 0x1FF69958]
     (0x9EF775C3, 0xF03D3782, 0xEB029E53, 0xE9A06DC8, 0x1DDB0E44) =
     (0x8CE34517, 0xD3AD7C25, 0x6B4E1883, 0x74351CD2, 0x86838382)"
  by (simp add: rotl_def f_t_def k_t_def)

lemma sha1_fips_compress_0: "compress
     (0x67452301, 0xEFCDAB89, 0x98BADCFE, 0x10325476, 0xC3D2E1F0)
     [0x61, 0x62, 0x63, 0x64, 0x62, 0x63, 0x64, 0x65,
      0x63, 0x64, 0x65, 0x66, 0x64, 0x65, 0x66, 0x67,
      0x65, 0x66, 0x67, 0x68, 0x66, 0x67, 0x68, 0x69,
      0x67, 0x68, 0x69, 0x6A, 0x68, 0x69, 0x6A, 0x6B,
      0x69, 0x6A, 0x6B, 0x6C, 0x6A, 0x6B, 0x6C, 0x6D,
      0x6B, 0x6C, 0x6D, 0x6E, 0x6C, 0x6D, 0x6E, 0x6F,
      0x6D, 0x6E, 0x6F, 0x70, 0x6E, 0x6F, 0x70, 0x71,
      0x80, 0x00, 0x00, 0x00, 0x00, 0x00, 0x00, 0x00] =
     (0xF4286818, 0xC37B27AE, 0x0408F581, 0x84677148, 0x4A566572)"
proof -
  let ?A = "[0x61626364, 0x62636465, 0x63646566, 0x64656667, 0x65666768, 0x66676869,
       0x6768696A, 0x68696A6B, 0x696A6B6C, 0x6A6B6C6D, 0x6B6C6D6E, 0x6C6D6E6F,
       0x6D6E6F70, 0x6E6F7071, 0x80000000, 0x00000000, 0x0A063A3E, 0xD8DADCDF,
       0xDADCDEC0, 0xC8D2B4BE] :: u32 list"
  let ?B = "[0x6F757B5B, 0x757B5967, 0x8DA16D70, 0xDAEEFABA, 0xFAF6CAB6, 0xA6FB675A,
       0x0C604CC8, 0x604CC02C, 0x49C0E6E2, 0x2EE8CBBC, 0xCFD72EC4, 0x97E9810E,
       0x0989CBE8, 0xF24843FE, 0x5C40D0BA, 0xA8D9CC3B, 0xB2B9666E, 0xBA7B71B7,
       0x20B28A72, 0xB28AF500] :: u32 list"
  let ?C = "[0x8AC87842, 0x289ADDF4, 0x56D51F21, 0xD96B7FD2, 0x3868E778, 0xAB5E4848,
       0x7F0E2118, 0xDE87A111, 0xE8BE56B0, 0x1A0AE652, 0xCD5611C8, 0x46EF29DC,
       0x60D3DA6D, 0xDDF3BA6E, 0x2737F5E9, 0x4888A710, 0xD2A1177B, 0x9999633B,
       0xD6C69D03, 0xCCF6127B] :: u32 list"
  let ?D = "[0x7C58FE6D, 0xFDD99C68, 0xF8E32074, 0xE0BA3C7D, 0x152198D6, 0x7B3F1982,
       0x37F2D5B7, 0x8596323E, 0x810790D6, 0xBEA0A942, 0x11C7E1B1, 0x6158D101,
       0x5FCD77D9, 0x7F2F12E6, 0xF868CFB1, 0xD6E997E9, 0xF526B852, 0xB7578DCC,
       0x55D99DF4, 0x1FF69958] :: u32 list"
  let ?s0 = "(0x67452301, 0xEFCDAB89, 0x98BADCFE, 0x10325476, 0xC3D2E1F0) :: sha_state"
  let ?s20 = "(0x6C445652, 0x944B1BD1, 0x509AE70D, 0x1AC1A012, 0x5098DF8E) :: sha_state"
  let ?s40 = "(0xADEB7478, 0x24957F22, 0x50FE1EBA, 0x564CFF26, 0xAADF0CBB) :: sha_state"
  let ?s60 = "(0x9EF775C3, 0xF03D3782, 0xEB029E53, 0xE9A06DC8, 0x1DDB0E44) :: sha_state"
  let ?s80 = "(0x8CE34517, 0xD3AD7C25, 0x6B4E1883, 0x74351CD2, 0x86838382) :: sha_state"
  have split: "expand 64 (words_of_block
     [0x61, 0x62, 0x63, 0x64, 0x62, 0x63, 0x64, 0x65,
      0x63, 0x64, 0x65, 0x66, 0x64, 0x65, 0x66, 0x67,
      0x65, 0x66, 0x67, 0x68, 0x66, 0x67, 0x68, 0x69,
      0x67, 0x68, 0x69, 0x6A, 0x68, 0x69, 0x6A, 0x6B,
      0x69, 0x6A, 0x6B, 0x6C, 0x6A, 0x6B, 0x6C, 0x6D,
      0x6B, 0x6C, 0x6D, 0x6E, 0x6C, 0x6D, 0x6E, 0x6F,
      0x6D, 0x6E, 0x6F, 0x70, 0x6E, 0x6F, 0x70, 0x71,
      0x80, 0x00, 0x00, 0x00, 0x00, 0x00, 0x00, 0x00]) = ?A @ ?B @ ?C @ ?D"
    unfolding sha1_fips_schedule_0 by simp
  have a: "rounds 0 (?A @ ?B @ ?C @ ?D) ?s0 =
             rounds (0 + length ?A) (?B @ ?C @ ?D) (rounds 0 ?A ?s0)"
    by (rule rounds_append)
  have a': "0 + length ?A = 20"
    by simp
  have b: "rounds 20 (?B @ ?C @ ?D) ?s20 =
             rounds (20 + length ?B) (?C @ ?D) (rounds 20 ?B ?s20)"
    by (rule rounds_append)
  have b': "20 + length ?B = 40"
    by simp
  have c: "rounds 40 (?C @ ?D) ?s40 = rounds (40 + length ?C) ?D (rounds 40 ?C ?s40)"
    by (rule rounds_append)
  have c': "40 + length ?C = 60"
    by simp
  have r: "rounds 0 (expand 64 (words_of_block
     [0x61, 0x62, 0x63, 0x64, 0x62, 0x63, 0x64, 0x65,
      0x63, 0x64, 0x65, 0x66, 0x64, 0x65, 0x66, 0x67,
      0x65, 0x66, 0x67, 0x68, 0x66, 0x67, 0x68, 0x69,
      0x67, 0x68, 0x69, 0x6A, 0x68, 0x69, 0x6A, 0x6B,
      0x69, 0x6A, 0x6B, 0x6C, 0x6A, 0x6B, 0x6C, 0x6D,
      0x6B, 0x6C, 0x6D, 0x6E, 0x6C, 0x6D, 0x6E, 0x6F,
      0x6D, 0x6E, 0x6F, 0x70, 0x6E, 0x6F, 0x70, 0x71,
      0x80, 0x00, 0x00, 0x00, 0x00, 0x00, 0x00, 0x00])) ?s0 = ?s80"
    unfolding split a a' sha1_fips_rounds_0_0 b b' sha1_fips_rounds_0_20 c c' sha1_fips_rounds_0_40
      sha1_fips_rounds_0_60
    by (rule refl)
  show ?thesis
    unfolding compress_def r by simp
qed

lemma sha1_fips_schedule_1: "expand 64 (words_of_block
     [0x00, 0x00, 0x00, 0x00, 0x00, 0x00, 0x00, 0x00,
      0x00, 0x00, 0x00, 0x00, 0x00, 0x00, 0x00, 0x00,
      0x00, 0x00, 0x00, 0x00, 0x00, 0x00, 0x00, 0x00,
      0x00, 0x00, 0x00, 0x00, 0x00, 0x00, 0x00, 0x00,
      0x00, 0x00, 0x00, 0x00, 0x00, 0x00, 0x00, 0x00,
      0x00, 0x00, 0x00, 0x00, 0x00, 0x00, 0x00, 0x00,
      0x00, 0x00, 0x00, 0x00, 0x00, 0x00, 0x00, 0x00,
      0x00, 0x00, 0x00, 0x00, 0x00, 0x00, 0x01, 0xC0]) =
     [0x00000000, 0x00000000, 0x00000000, 0x00000000, 0x00000000, 0x00000000,
      0x00000000, 0x00000000, 0x00000000, 0x00000000, 0x00000000, 0x00000000,
      0x00000000, 0x00000000, 0x00000000, 0x000001C0, 0x00000000, 0x00000000,
      0x00000380, 0x00000000, 0x00000000, 0x00000700, 0x00000000, 0x00000380,
      0x00000E00, 0x00000000, 0x00000000, 0x00001C00, 0x00000000, 0x00000D80,
      0x00003800, 0x00000480, 0x00000000, 0x00007000, 0x00000E00, 0x00003600,
      0x0000E000, 0x00000E00, 0x00000000, 0x0001CE00, 0x00000000, 0x0000D800,
      0x00038000, 0x00004F00, 0x00000000, 0x00070E00, 0x0000EE00, 0x00037500,
      0x000E0000, 0x0000E000, 0x00003600, 0x001CEE00, 0x00000000, 0x000DF000,
      0x00380000, 0x0004C600, 0x0000E000, 0x0070EE00, 0x000EE000, 0x00369E00,
      0x00E00000, 0x000ED600, 0x0000E000, 0x01CEA600, 0x00000000, 0x00D80000,
      0x0380E000, 0x004F0000, 0x00000000, 0x070E0000, 0x00EE0000, 0x03751C00,
      0x0E000000, 0x00E0E000, 0x00363800, 0x1CEE9000, 0x00000000, 0x0DF09000,
      0x3800E000, 0x04C77400]"
  by (simp add: word_of_bytes_def expand_numeral rotl_def)

lemma sha1_fips_rounds_1_0: "rounds 0
     [0x00000000, 0x00000000, 0x00000000, 0x00000000, 0x00000000, 0x00000000,
      0x00000000, 0x00000000, 0x00000000, 0x00000000, 0x00000000, 0x00000000,
      0x00000000, 0x00000000, 0x00000000, 0x000001C0, 0x00000000, 0x00000000,
      0x00000380, 0x00000000]
     (0xF4286818, 0xC37B27AE, 0x0408F581, 0x84677148, 0x4A566572) =
     (0xD8992153, 0xC2EB709F, 0x2946D62F, 0x9541F6DB, 0x365DC8D8)"
  by (simp add: rotl_def f_t_def k_t_def)

lemma sha1_fips_rounds_1_20: "rounds 20
     [0x00000000, 0x00000700, 0x00000000, 0x00000380, 0x00000E00, 0x00000000,
      0x00000000, 0x00001C00, 0x00000000, 0x00000D80, 0x00003800, 0x00000480,
      0x00000000, 0x00007000, 0x00000E00, 0x00003600, 0x0000E000, 0x00000E00,
      0x00000000, 0x0001CE00]
     (0xD8992153, 0xC2EB709F, 0x2946D62F, 0x9541F6DB, 0x365DC8D8) =
     (0x03BB6310, 0x84E2A5F2, 0x21F56E03, 0xB3BD6B84, 0x1A5B6901)"
  by (simp add: rotl_def f_t_def k_t_def)

lemma sha1_fips_rounds_1_40: "rounds 40
     [0x00000000, 0x0000D800, 0x00038000, 0x00004F00, 0x00000000, 0x00070E00,
      0x0000EE00, 0x00037500, 0x000E0000, 0x0000E000, 0x00003600, 0x001CEE00,
      0x00000000, 0x000DF000, 0x00380000, 0x0004C600, 0x0000E000, 0x0070EE00,
      0x000EE000, 0x00369E00]
     (0x03BB6310, 0x84E2A5F2, 0x21F56E03, 0xB3BD6B84, 0x1A5B6901) =
     (0xA65818F7, 0x5B086C42, 0xB9E15956, 0xEA1256A6, 0xDB69CB9F)"
  by (simp add: rotl_def f_t_def k_t_def)

lemma sha1_fips_rounds_1_60: "rounds 60
     [0x00E00000, 0x000ED600, 0x0000E000, 0x01CEA600, 0x00000000, 0x00D80000,
      0x0380E000, 0x004F0000, 0x00000000, 0x070E0000, 0x00EE0000, 0x03751C00,
      0x0E000000, 0x00E0E000, 0x00363800, 0x1CEE9000, 0x00000000, 0x0DF09000,
      0x3800E000, 0x04C77400]
     (0xA65818F7, 0x5B086C42, 0xB9E15956, 0xEA1256A6, 0xDB69CB9F) =
     (0x906FD62C, 0x58C0AAC0, 0xB6A55520, 0x74E9B89D, 0x9AF00B7F)"
  by (simp add: rotl_def f_t_def k_t_def)

lemma sha1_fips_compress_1: "compress
     (0xF4286818, 0xC37B27AE, 0x0408F581, 0x84677148, 0x4A566572)
     [0x00, 0x00, 0x00, 0x00, 0x00, 0x00, 0x00, 0x00,
      0x00, 0x00, 0x00, 0x00, 0x00, 0x00, 0x00, 0x00,
      0x00, 0x00, 0x00, 0x00, 0x00, 0x00, 0x00, 0x00,
      0x00, 0x00, 0x00, 0x00, 0x00, 0x00, 0x00, 0x00,
      0x00, 0x00, 0x00, 0x00, 0x00, 0x00, 0x00, 0x00,
      0x00, 0x00, 0x00, 0x00, 0x00, 0x00, 0x00, 0x00,
      0x00, 0x00, 0x00, 0x00, 0x00, 0x00, 0x00, 0x00,
      0x00, 0x00, 0x00, 0x00, 0x00, 0x00, 0x01, 0xC0] =
     (0x84983E44, 0x1C3BD26E, 0xBAAE4AA1, 0xF95129E5, 0xE54670F1)"
proof -
  let ?A = "[0x00000000, 0x00000000, 0x00000000, 0x00000000, 0x00000000, 0x00000000,
       0x00000000, 0x00000000, 0x00000000, 0x00000000, 0x00000000, 0x00000000,
       0x00000000, 0x00000000, 0x00000000, 0x000001C0, 0x00000000, 0x00000000,
       0x00000380, 0x00000000] :: u32 list"
  let ?B = "[0x00000000, 0x00000700, 0x00000000, 0x00000380, 0x00000E00, 0x00000000,
       0x00000000, 0x00001C00, 0x00000000, 0x00000D80, 0x00003800, 0x00000480,
       0x00000000, 0x00007000, 0x00000E00, 0x00003600, 0x0000E000, 0x00000E00,
       0x00000000, 0x0001CE00] :: u32 list"
  let ?C = "[0x00000000, 0x0000D800, 0x00038000, 0x00004F00, 0x00000000, 0x00070E00,
       0x0000EE00, 0x00037500, 0x000E0000, 0x0000E000, 0x00003600, 0x001CEE00,
       0x00000000, 0x000DF000, 0x00380000, 0x0004C600, 0x0000E000, 0x0070EE00,
       0x000EE000, 0x00369E00] :: u32 list"
  let ?D = "[0x00E00000, 0x000ED600, 0x0000E000, 0x01CEA600, 0x00000000, 0x00D80000,
       0x0380E000, 0x004F0000, 0x00000000, 0x070E0000, 0x00EE0000, 0x03751C00,
       0x0E000000, 0x00E0E000, 0x00363800, 0x1CEE9000, 0x00000000, 0x0DF09000,
       0x3800E000, 0x04C77400] :: u32 list"
  let ?s0 = "(0xF4286818, 0xC37B27AE, 0x0408F581, 0x84677148, 0x4A566572) :: sha_state"
  let ?s20 = "(0xD8992153, 0xC2EB709F, 0x2946D62F, 0x9541F6DB, 0x365DC8D8) :: sha_state"
  let ?s40 = "(0x03BB6310, 0x84E2A5F2, 0x21F56E03, 0xB3BD6B84, 0x1A5B6901) :: sha_state"
  let ?s60 = "(0xA65818F7, 0x5B086C42, 0xB9E15956, 0xEA1256A6, 0xDB69CB9F) :: sha_state"
  let ?s80 = "(0x906FD62C, 0x58C0AAC0, 0xB6A55520, 0x74E9B89D, 0x9AF00B7F) :: sha_state"
  have split: "expand 64 (words_of_block
     [0x00, 0x00, 0x00, 0x00, 0x00, 0x00, 0x00, 0x00,
      0x00, 0x00, 0x00, 0x00, 0x00, 0x00, 0x00, 0x00,
      0x00, 0x00, 0x00, 0x00, 0x00, 0x00, 0x00, 0x00,
      0x00, 0x00, 0x00, 0x00, 0x00, 0x00, 0x00, 0x00,
      0x00, 0x00, 0x00, 0x00, 0x00, 0x00, 0x00, 0x00,
      0x00, 0x00, 0x00, 0x00, 0x00, 0x00, 0x00, 0x00,
      0x00, 0x00, 0x00, 0x00, 0x00, 0x00, 0x00, 0x00,
      0x00, 0x00, 0x00, 0x00, 0x00, 0x00, 0x01, 0xC0]) = ?A @ ?B @ ?C @ ?D"
    unfolding sha1_fips_schedule_1 by simp
  have a: "rounds 0 (?A @ ?B @ ?C @ ?D) ?s0 =
             rounds (0 + length ?A) (?B @ ?C @ ?D) (rounds 0 ?A ?s0)"
    by (rule rounds_append)
  have a': "0 + length ?A = 20"
    by simp
  have b: "rounds 20 (?B @ ?C @ ?D) ?s20 =
             rounds (20 + length ?B) (?C @ ?D) (rounds 20 ?B ?s20)"
    by (rule rounds_append)
  have b': "20 + length ?B = 40"
    by simp
  have c: "rounds 40 (?C @ ?D) ?s40 = rounds (40 + length ?C) ?D (rounds 40 ?C ?s40)"
    by (rule rounds_append)
  have c': "40 + length ?C = 60"
    by simp
  have r: "rounds 0 (expand 64 (words_of_block
     [0x00, 0x00, 0x00, 0x00, 0x00, 0x00, 0x00, 0x00,
      0x00, 0x00, 0x00, 0x00, 0x00, 0x00, 0x00, 0x00,
      0x00, 0x00, 0x00, 0x00, 0x00, 0x00, 0x00, 0x00,
      0x00, 0x00, 0x00, 0x00, 0x00, 0x00, 0x00, 0x00,
      0x00, 0x00, 0x00, 0x00, 0x00, 0x00, 0x00, 0x00,
      0x00, 0x00, 0x00, 0x00, 0x00, 0x00, 0x00, 0x00,
      0x00, 0x00, 0x00, 0x00, 0x00, 0x00, 0x00, 0x00,
      0x00, 0x00, 0x00, 0x00, 0x00, 0x00, 0x01, 0xC0])) ?s0 = ?s80"
    unfolding split a a' sha1_fips_rounds_1_0 b b' sha1_fips_rounds_1_20 c c' sha1_fips_rounds_1_40
      sha1_fips_rounds_1_60
    by (rule refl)
  show ?thesis
    unfolding compress_def r by simp
qed

lemma sha1_fips_digest: "sha1 (encode_utf8 ''abcdbcdecdefdefgefghfghighijhijkijkljklmklmnlmnomnopnopq'') =
     [0x84, 0x98, 0x3E, 0x44, 0x1C, 0x3B, 0xD2, 0x6E, 0xBA, 0xAE,
      0x4A, 0xA1, 0xF9, 0x51, 0x29, 0xE5, 0xE5, 0x46, 0x70, 0xF1]"
  unfolding sha1_def sha1_fips_blocks
  by (simp add: sha1_fips_compress_0 sha1_fips_compress_1 word_bytes_def)

text \<open>The two tokens on a server with five training users.\<close>

lemma Resolve_abc_5: "Resolve 5 ''abc'' = Inr 3"
  by (simp add: Resolve_eq sha1_abc_digest_int)


subsection \<open>The handler's result\<close>

lemma ListRecommendations_eq:
  "train_users g \<noteq> 0 \<Longrightarrow>
   ListRecommendations g request =
     (Inr \<lparr>response_product_ids = prod_list\<rparr>,
      [LogInfo (''[Recv ListRecommendations] product_ids='' @ repr_list prod_list)])"
  by (simp add: ListRecommendations_def ListRecommendations_calling_def Resolve_eq Let_def)

lemma ListRecommendations_zero:
  "train_users g = 0 \<Longrightarrow>
   ListRecommendations g request =
     (Inl (Error ZeroDivisionError ''integer division or modulo by zero''), [])"
  by (simp add: ListRecommendations_def ListRecommendations_calling_def Resolve_zero)


lemma serve_module_globals: "module_globals (snd (serve p call)) = module_globals p"
  by (cases call) (simp_all add: case_prod_beta)

lemma serve_all_module_globals: "module_globals (snd (serve_all p calls)) = module_globals p"
  by (induction calls arbitrary: p) (simp_all add: case_prod_beta serve_module_globals)

subsection \<open>The profiler loop and the startup blocks\<close>

lemma py_range_1_4: "py_range 1 4 = [1, 2, 3]"
  by (simp add: py_range_def upto.simps)

lemma str_int_tens: "str_int 10 = ''10''" "str_int 20 = ''20''" "str_int 30 = ''30''"
  by code_simp+

lemma isinstance_BaseException: "isinstance e BaseException"
  by (cases e) simp

lemma sleeps_append: "sleeps (xs @ ys) = sleeps xs @ sleeps ys"
  by (induction xs rule: sleeps.induct) simp_all

lemma profiler_retries_returns: "fst (profiler_retries w pid rs) = Inr ()"
  by (induction rs) (simp_all add: isinstance_BaseException case_prod_beta split: option.splits)

lemma profiler_retries_starts:
  "length (filter is_ProfilerStart (snd (profiler_retries w pid rs))) \<le> length rs"
  by (induction rs) (simp_all add: isinstance_BaseException case_prod_beta split: option.splits)

lemma profiler_retries_sleeps: "set (sleeps (snd (profiler_retries w pid rs))) \<subseteq> {1}"
  by (induction rs)
    (simp_all add: isinstance_BaseException case_prod_beta sleeps_append split: option.splits)

lemma profiler_retries_no_warning:
  "list_all (\<lambda>r. r < 4) rs \<Longrightarrow> filter is_LogWarning (snd (profiler_retries w pid rs)) = []"
  by (induction rs) (simp_all add: isinstance_BaseException case_prod_beta split: option.splits)

lemma profiler_retries_no_listen: "filter is_listen (snd (profiler_retries w pid rs)) = []"
  by (induction rs) (simp_all add: isinstance_BaseException case_prod_beta split: option.splits)

lemma profiler_block_returns: "fst (profiler_block w) = Inr ()"
  by (simp add: profiler_block_def try_except_def and_then_def initStackdriverProfiling_def
      profiler_retries_returns case_prod_beta split: sum.splits)

lemma profiler_block_no_listen: "filter is_listen (snd (profiler_block w)) = []"
  by (simp add: profiler_block_def try_except_def and_then_def initStackdriverProfiling_def
      profiler_retries_no_listen profiler_retries_returns case_prod_beta split: sum.splits)

lemma tracing_block_no_listen: "filter is_listen (snd (tracing_block w)) = []"
  by (cases "StackdriverExporter w")
    (simp_all add: tracing_block_def try_except_def and_then_def)

lemma debugger_block_no_listen: "filter is_listen (snd (debugger_block w)) = []"
  by (cases "googleclouddebugger_enable w")
    (simp_all add: debugger_block_def try_except_def and_then_def)

lemma fst_and_then:
  "fst (and_then m f) = (case fst m of Inl e \<Rightarrow> Inl e | Inr x \<Rightarrow> fst (f x))"
  by (simp add: and_then_def split: prod.splits sum.splits)

lemma snd_and_then:
  "snd (and_then m f) = (case fst m of Inl e \<Rightarrow> snd m | Inr x \<Rightarrow> snd m @ snd (f x))"
  by (simp add: and_then_def split: prod.splits sum.splits)

lemma tracing_block_profiler_update:
  "tracing_block (w\<lparr>googlecloudprofiler_start := start'\<rparr>) = tracing_block w"
  by (simp add: tracing_block_def split: option.splits)

lemma debugger_block_profiler_update:
  "debugger_block (w\<lparr>googlecloudprofiler_start := start'\<rparr>) = debugger_block w"
  by (simp add: debugger_block_def split: option.splits)

lemma main_result_profiler_update:
  "fst (main (w\<lparr>googlecloudprofiler_start := start'\<rparr>)) = fst (main w)"
  by (simp add: main_def fst_and_then profiler_block_returns tracing_block_profiler_update
      debugger_block_profiler_update)

lemma main_missing_address_raises:
  assumes "environ w ''PRODUCT_CATALOG_SERVICE_ADDR'' = None
           \<or> environ w ''PRODUCT_CATALOG_SERVICE_ADDR'' = Some []"
  shows "\<exists>e. fst (main w) = Inl e"
  using assms
  by (auto simp: main_def fst_and_then profiler_block_returns Let_def split: sum.splits)

lemma main_missing_address_no_listen:
  assumes "environ w ''PRODUCT_CATALOG_SERVICE_ADDR'' = None
           \<or> environ w ''PRODUCT_CATALOG_SERVICE_ADDR'' = Some []"
  shows "filter is_listen (snd (main w)) = []"
  using assms
  by (auto simp: main_def fst_and_then snd_and_then profiler_block_returns Let_def
      profiler_block_no_listen tracing_block_no_listen debugger_block_no_listen
      split: sum.splits)

lemma main_missing_address_error:
  assumes "environ w ''PRODUCT_CATALOG_SERVICE_ADDR'' = None
           \<or> environ w ''PRODUCT_CATALOG_SERVICE_ADDR'' = Some []"
    and "\<not> isl (fst (tracing_block w))" and "\<not> isl (fst (debugger_block w))"
  shows "fst (main w) =
           Inl (Error Exception ''PRODUCT_CATALOG_SERVICE_ADDR environment variable not set'')"
  using assms
  by (auto simp: main_def fst_and_then profiler_block_returns Let_def split: sum.splits)

lemma main_example_configured:
  "main example_world_configured =
     (Inr \<lparr>max_workers = 10, interceptors = [OpenCensusServerInterceptor],
           insecure_port = ''[::]:9090''\<rparr>,
      [LogInfo ''initializing recommendationservice'',
       LogInfo ''Profiler enabled.'',
       ProfilerStart None,
       LogInfo ''Unable to start Stackdriver Profiler Python agent. no credentials'',
       LogInfo ''Sleeping 10 seconds to retry Stackdriver Profiler agent initialization'',
       Sleep 1,
       ProfilerStart None,
       LogInfo ''Unable to start Stackdriver Profiler Python agent. no credentials'',
       LogInfo ''Sleeping 20 seconds to retry Stackdriver Profiler agent initialization'',
       Sleep 1,
       ProfilerStart None,
       LogInfo ''Unable to start Stackdriver Profiler Python agent. no credentials'',
       LogInfo ''Sleeping 30 seconds to retry Stackdriver Profiler agent initialization'',
       Sleep 1,
       LogInfo ''Tracing enabled.'',
       LogInfo ''Tracing disabled.'',
       LogInfo ''Debugger enabled.'',
       LogError ''Could not enable debugger'',
       PrintExc,
       LogError ''None'',
       LogInfo ''product catalog address: productcatalogservice:3550'',
       InsecureChannel ''productcatalogservice:3550'',
       GrpcServer 10,
       AddRecommendationServicer,
       AddHealthServicer,
       LogInfo ''listening on port: 9090'',
       AddInsecurePort ''[::]:9090'',
       ServerStart])"
  by (simp add: main_def and_then_def try_except_def profiler_block_def tracing_block_def
      debugger_block_def initStackdriverProfiling_def py_range_1_4 str_int_tens
      example_world_configured_def example_world_def start_argument_def Let_def)

subsection \<open>Health protocol\<close>

text \<open>
  C7. Every call to Check returns the status SERVING, whatever the request. A call to
  Watch does not return a response: the handler looks up the attribute
  \<^verbatim>\<open>UNIMPLEMENTED\<close> of the response class, the enumeration has no member of that name,
  and the lookup raises \<^verbatim>\<open>AttributeError\<close>, whatever the request. The claim holds of
  Check and fails of Watch, where the source names a member that does not exist.
\<close>

theorem Check_serving_Watch_raises:
  "Check request context = Inr \<lparr>status = SERVING\<rparr>
   \<and> Watch request' context' =
       Inl (Error AttributeError
              (''type object '' @ repr_str ''HealthCheckResponse''
                 @ '' has no attribute '' @ repr_str ''UNIMPLEMENTED''))"
  by (simp add: Check_def Watch_def HealthCheckResponse_getattr_def)

subsection \<open>Resolving the token\<close>

text \<open>
  C3. For every token, the empty string included, and every universe size \<open>N \<ge> 1\<close>,
  Resolve returns a user id (it raises nothing), the id is 1 plus the SHA-1 digest of
  the token's UTF-8 bytes, read as one unsigned number, modulo \<open>N\<close>, and it lies
  between 1 and \<open>N\<close>. The source reaches the number through the hexadecimal
  digest and \<^verbatim>\<open>int(_, 16)\<close>; \<open>digest_int\<close> reads the bytes directly.
\<close>

theorem Resolve_bucket:
  "0 < N \<Longrightarrow>
   \<exists>u. Resolve N token = Inr u
     \<and> u = 1 + digest_int (sha1 (encode_utf8 token)) mod N
     \<and> 1 \<le> u \<and> u \<le> N"
proof -
  assume pos: "0 < N"
  let ?d = "digest_int (sha1 (encode_utf8 token))"
  have lo: "0 \<le> ?d mod N"
    using pos by simp
  have hi: "?d mod N < N"
    using pos by simp
  have ge: "1 \<le> 1 + ?d mod N"
    using lo by linarith
  have le: "1 + ?d mod N \<le> N"
    using hi by linarith
  have "Resolve N token = Inr (1 + ?d mod N)"
    using pos by (simp add: Resolve_eq)
  with ge le show ?thesis
    by blast
qed

theorem Resolve_bucket_witness:
  "(0::int) < 5
   \<and> Resolve 5 ''abc'' = Inr 3
   \<and> 3 = 1 + digest_int (sha1 (encode_utf8 ''abc'')) mod 5
   \<and> Resolve 5 [] = Inr 1
   \<and> 1 = 1 + digest_int (sha1 (encode_utf8 [])) mod 5"
proof -
  have h: "(0::int) < 5" by simp
  show ?thesis
    using h Resolve_bucket [OF h, of "''abc''"] Resolve_bucket [OF h, of "[]"]
    by (simp add: sha1_abc_digest_int sha1_empty_digest_int)
qed

text \<open>
  C8. Within one universe size \<open>N\<close> (not zero), two invocations of Resolve with equal
  tokens return the same user id, whatever calls the process has served between the
  two: the first invocation is made in a process \<open>p\<close>, the second in the process that
  \<open>p\<close> has become after any sequence of calls. The id is the bucket of the token.
\<close>

theorem Resolve_deterministic:
  "train_users (module_globals p) \<noteq> 0 \<Longrightarrow> token1 = token2 \<Longrightarrow>
   \<exists>u. Resolve (train_users (module_globals p)) token1 = Inr u
     \<and> Resolve (train_users (module_globals (snd (serve_all p calls)))) token2 = Inr u
     \<and> u = 1 + digest_int (sha1 (encode_utf8 token1)) mod train_users (module_globals p)"
  by (simp add: serve_all_module_globals Resolve_eq)

theorem Resolve_deterministic_witness:
  "train_users (module_globals example_process) \<noteq> 0
   \<and> Resolve (train_users (module_globals example_process)) ''abc'' = Inr 3
   \<and> Resolve (train_users (module_globals (snd (serve_all example_process example_calls))))
        ''abc'' = Inr 3
   \<and> Resolve (train_users (module_globals example_process)) [] = Inr 1
   \<and> Resolve (train_users (module_globals (snd (serve_all example_process example_calls))))
        [] = Inr 1"
proof -
  have h: "train_users (module_globals example_process) \<noteq> 0"
    by (simp add: example_process_def example_globals_def)
  have n: "train_users (module_globals example_process) = 5"
    by (simp add: example_process_def example_globals_def)
  show ?thesis
    using h Resolve_deterministic [OF h refl, of "''abc''" example_calls]
      Resolve_deterministic [OF h refl, of "[]" example_calls]
    by (simp add: n sha1_abc_digest_int sha1_empty_digest_int)
qed

subsection \<open>The answer of ListRecommendations\<close>






text \<open>
  C5. On a server whose user universe is not empty, every request gets a response whose
  list has no duplicate item id and at most K = 10 entries.
\<close>

theorem result_distinct_at_most_K:
  "train_users g \<noteq> 0 \<Longrightarrow>
   \<exists>response. fst (ListRecommendations g request) = Inr response
     \<and> distinct (response_product_ids response)
     \<and> int (length (response_product_ids response)) \<le> TOP_K"
  by (simp add: ListRecommendations_eq prod_list_def TOP_K_def)

theorem result_distinct_at_most_K_witness:
  "train_users example_globals \<noteq> 0
   \<and> (\<exists>response. fst (ListRecommendations example_globals example_request) = Inr response
         \<and> distinct (response_product_ids response)
         \<and> int (length (response_product_ids response)) \<le> TOP_K)"
proof -
  have h: "train_users example_globals \<noteq> 0"
    by (simp add: example_globals_def)
  show ?thesis
    using h result_distinct_at_most_K [OF h, of example_request] by blast
qed

text \<open>
  C1, as the code has it. For every request whose resolved user has a non-empty
  candidate set, the handler answers with the fixed list of five product ids whenever
  the scoring call returns, whatever predictions it returns: the candidates are not
  sorted, truncated or returned.
\<close>

theorem candidates_not_ranked:
  "Resolve (train_users g) (user_id request) = Inr uid \<Longrightarrow> held_out g uid \<noteq> [] \<Longrightarrow>
   score (model g) (held_out g uid) = Inr predictions \<Longrightarrow>
   fst (ListRecommendations_calling score g request) =
     Inr \<lparr>response_product_ids =
            [''1YMWWN1N4O'', ''L9ECAV7KIM'', ''LS4PSXUNUM'', ''9SIQT8TOJO'', ''OLJCESPC7Z'']\<rparr>"
  by (simp add: ListRecommendations_calling_def Let_def prod_list_def)

theorem candidates_not_ranked_witness:
  "Resolve (train_users example_globals) (user_id example_request) = Inr 3
   \<and> held_out example_globals 3 \<noteq> []
   \<and> example_returning_scorer (model example_globals) (held_out example_globals 3) =
       Inr [(3, ''ITEM-A'', 3), (3, ''ITEM-B'', 5)]
   \<and> fst (ListRecommendations_calling example_returning_scorer example_globals
            example_request) =
       Inr \<lparr>response_product_ids =
              [''1YMWWN1N4O'', ''L9ECAV7KIM'', ''LS4PSXUNUM'', ''9SIQT8TOJO'', ''OLJCESPC7Z'']\<rparr>"
proof -
  have r: "Resolve (train_users example_globals) (user_id example_request) = Inr 3"
    by (simp add: example_globals_def example_request_def Resolve_abc_5)
  have c: "held_out example_globals 3 \<noteq> []"
    by (simp add: held_out_def example_globals_def)
  have s: "example_returning_scorer (model example_globals) (held_out example_globals 3) =
       Inr [(3, ''ITEM-A'', 3), (3, ''ITEM-B'', 5)]"
    by (simp add: example_returning_scorer_def held_out_def example_globals_def)
  show ?thesis
    using r c s candidates_not_ranked [where score = example_returning_scorer, OF r c s]
    by simp
qed

text \<open>
  The claim as the design document states it fails: on the example server the token
  abc resolves to user 3, who has two candidates; the ranking of the document is
  ITEM-B, ITEM-A, and the handler answers with the five fixed ids.
\<close>

theorem ranked_top_k_counterexample:
  "Resolve (train_users example_globals) (user_id example_request) = Inr 3
   \<and> held_out example_globals 3 = [(3, ''ITEM-A'', 3), (3, ''ITEM-B'', 5)]
   \<and> spec_top_k (compute_ranking_predictions example_globals (model example_globals)
        (held_out example_globals 3)) = [''ITEM-B'', ''ITEM-A'']
   \<and> fst (ListRecommendations example_globals example_request) =
       Inr \<lparr>response_product_ids =
              [''1YMWWN1N4O'', ''L9ECAV7KIM'', ''LS4PSXUNUM'', ''9SIQT8TOJO'', ''OLJCESPC7Z'']\<rparr>
   \<and> fst (ListRecommendations example_globals example_request) \<noteq>
       Inr \<lparr>response_product_ids =
              spec_top_k (compute_ranking_predictions example_globals (model example_globals)
                (held_out example_globals 3))\<rparr>"
proof -
  have r: "Resolve (train_users example_globals) (user_id example_request) = Inr 3"
    by (simp add: example_globals_def example_request_def Resolve_abc_5)
  have c: "held_out example_globals 3 = [(3, ''ITEM-A'', 3), (3, ''ITEM-B'', 5)]"
    by (simp add: held_out_def example_globals_def)
  have s: "spec_top_k (compute_ranking_predictions example_globals (model example_globals)
        (held_out example_globals 3)) = [''ITEM-B'', ''ITEM-A'']"
    unfolding c by (simp add: spec_top_k_def TOP_K_def example_globals_def example_scorer_def)
  have h: "train_users example_globals \<noteq> 0"
    by (simp add: example_globals_def)
  have l: "fst (ListRecommendations example_globals example_request) =
       Inr \<lparr>response_product_ids =
              [''1YMWWN1N4O'', ''L9ECAV7KIM'', ''LS4PSXUNUM'', ''9SIQT8TOJO'', ''OLJCESPC7Z'']\<rparr>"
    by (simp add: ListRecommendations_eq [OF h] prod_list_def)
  have n: "fst (ListRecommendations example_globals example_request) \<noteq>
       Inr \<lparr>response_product_ids =
              spec_top_k (compute_ranking_predictions example_globals (model example_globals)
                (held_out example_globals 3))\<rparr>"
    unfolding l s by simp
  from r c s l n show ?thesis
    by blast
qed

text \<open>
  C6, as the code has it. The \<open>product_ids\<close> field of the request is not consulted: on
  a server whose user universe is not empty, replacing the field by any list leaves the
  answer unchanged, so an excluded item id is in the answer exactly when it is one of
  the five fixed ids.
\<close>

theorem excluded_ids_not_consulted:
  "train_users g \<noteq> 0 \<Longrightarrow>
   (\<exists>response. fst (ListRecommendations g request) = Inr response
      \<and> set (product_ids request) \<inter> set (response_product_ids response) =
          set (product_ids request)
            \<inter> {''1YMWWN1N4O'', ''L9ECAV7KIM'', ''LS4PSXUNUM'', ''9SIQT8TOJO'', ''OLJCESPC7Z''})
   \<and> fst (ListRecommendations g (request\<lparr>product_ids := excluded\<rparr>)) =
       fst (ListRecommendations g request)"
  by (simp add: ListRecommendations_eq prod_list_def)

theorem excluded_ids_not_consulted_witness:
  "train_users example_globals \<noteq> 0
   \<and> (\<exists>response. fst (ListRecommendations example_globals example_request) = Inr response
      \<and> set (product_ids example_request) \<inter> set (response_product_ids response) =
          set (product_ids example_request)
            \<inter> {''1YMWWN1N4O'', ''L9ECAV7KIM'', ''LS4PSXUNUM'', ''9SIQT8TOJO'', ''OLJCESPC7Z''})
   \<and> fst (ListRecommendations example_globals
            (example_request\<lparr>product_ids := [''L9ECAV7KIM'']\<rparr>)) =
       fst (ListRecommendations example_globals example_request)"
proof -
  have h: "train_users example_globals \<noteq> 0"
    by (simp add: example_globals_def)
  show ?thesis
    using h excluded_ids_not_consulted [OF h, of example_request "[''L9ECAV7KIM'']"]
    by blast
qed

text \<open>
  The claim as stated fails: the request excludes 1YMWWN1N4O, and the answer holds it.
\<close>

theorem excluded_item_returned_counterexample:
  "''1YMWWN1N4O'' \<in> set (product_ids example_request_excluding)
   \<and> fst (ListRecommendations example_globals example_request_excluding) =
       Inr \<lparr>response_product_ids =
              [''1YMWWN1N4O'', ''L9ECAV7KIM'', ''LS4PSXUNUM'', ''9SIQT8TOJO'', ''OLJCESPC7Z'']\<rparr>"
proof -
  have h: "train_users example_globals \<noteq> 0"
    by (simp add: example_globals_def)
  show ?thesis
    by (simp add: ListRecommendations_eq [OF h] prod_list_def example_request_excluding_def)
qed

subsection \<open>Startup\<close>

text \<open>
  C9. If the address of the product catalog is absent from the environment (or set to
  the empty string), startup ends with an exception and no call that binds or starts
  the listener has been made. The exception is the configuration error of the source,
  provided the tracing and debugger blocks before the check have completed; an
  exception that one of them leaves uncaught ends startup earlier, also before the
  listener.
\<close>

theorem missing_catalog_address_fatal:
  assumes "environ w ''PRODUCT_CATALOG_SERVICE_ADDR'' = None
           \<or> environ w ''PRODUCT_CATALOG_SERVICE_ADDR'' = Some []"
  shows "(\<exists>e. fst (main w) = Inl e)
         \<and> filter is_listen (snd (main w)) = []
         \<and> (\<not> isl (fst (tracing_block w)) \<and> \<not> isl (fst (debugger_block w)) \<longrightarrow>
              fst (main w) =
                Inl (Error Exception
                  ''PRODUCT_CATALOG_SERVICE_ADDR environment variable not set''))"
  using main_missing_address_raises [OF assms] main_missing_address_no_listen [OF assms]
    main_missing_address_error [OF assms]
  by blast

theorem missing_catalog_address_fatal_witness:
  "environ example_world ''PRODUCT_CATALOG_SERVICE_ADDR'' = None
   \<and> \<not> isl (fst (tracing_block example_world))
   \<and> \<not> isl (fst (debugger_block example_world))
   \<and> fst (main example_world) =
       Inl (Error Exception ''PRODUCT_CATALOG_SERVICE_ADDR environment variable not set'')
   \<and> filter is_listen (snd (main example_world)) = []"
proof -
  have a: "environ example_world ''PRODUCT_CATALOG_SERVICE_ADDR'' = None"
    by (simp add: example_world_def)
  have t: "\<not> isl (fst (tracing_block example_world))"
    by (simp add: tracing_block_def try_except_def and_then_def example_world_def)
  have d: "\<not> isl (fst (debugger_block example_world))"
    by (simp add: debugger_block_def try_except_def and_then_def example_world_def)
  show ?thesis
    using a t d missing_catalog_address_fatal [of example_world] by blast
qed

text \<open>
  C10. Profiler initialisation starts the profiler at most 3 times; after a failed
  attempt it logs the failure and sleeps a fixed second; it logs no warning when it
  gives up, and it returns normally whatever the attempts raise. When all three
  attempts fail the events are exactly three rounds of start, failure message,
  sleep announcement and a sleep of one second. The result of startup does not depend
  on the outcomes of the attempts.
\<close>

theorem profiler_init_bounded_and_silent:
  "fst (initStackdriverProfiling w) = Inr ()
   \<and> length (filter is_ProfilerStart (snd (initStackdriverProfiling w))) \<le> 3
   \<and> set (sleeps (snd (initStackdriverProfiling w))) \<subseteq> {1}
   \<and> filter is_LogWarning (snd (initStackdriverProfiling w)) = []
   \<and> (googlecloudprofiler_start w 1 = Some e1 \<and> googlecloudprofiler_start w 2 = Some e2
        \<and> googlecloudprofiler_start w 3 = Some e3 \<longrightarrow>
      snd (initStackdriverProfiling w) =
        [ProfilerStart (start_argument (environ w ''GCP_PROJECT_ID'')),
         LogInfo (''Unable to start Stackdriver Profiler Python agent. '' @ exc_str e1),
         LogInfo ''Sleeping 10 seconds to retry Stackdriver Profiler agent initialization'',
         Sleep 1,
         ProfilerStart (start_argument (environ w ''GCP_PROJECT_ID'')),
         LogInfo (''Unable to start Stackdriver Profiler Python agent. '' @ exc_str e2),
         LogInfo ''Sleeping 20 seconds to retry Stackdriver Profiler agent initialization'',
         Sleep 1,
         ProfilerStart (start_argument (environ w ''GCP_PROJECT_ID'')),
         LogInfo (''Unable to start Stackdriver Profiler Python agent. '' @ exc_str e3),
         LogInfo ''Sleeping 30 seconds to retry Stackdriver Profiler agent initialization'',
         Sleep 1])
   \<and> fst (main (w\<lparr>googlecloudprofiler_start := start'\<rparr>)) = fst (main w)"
proof -
  have returns: "fst (initStackdriverProfiling w) = Inr ()"
    by (simp add: initStackdriverProfiling_def profiler_retries_returns)
  have starts: "length (filter is_ProfilerStart (snd (initStackdriverProfiling w))) \<le> 3"
    using profiler_retries_starts [of w "environ w ''GCP_PROJECT_ID''" "[1, 2, 3]"]
    by (simp add: initStackdriverProfiling_def py_range_1_4)
  have backoff: "set (sleeps (snd (initStackdriverProfiling w))) \<subseteq> {1}"
    by (simp only: initStackdriverProfiling_def profiler_retries_sleeps)
  have "list_all (\<lambda>r. r < 4) [1, 2, 3 :: int]"
    by simp
  then have silent: "filter is_LogWarning (snd (initStackdriverProfiling w)) = []"
    unfolding initStackdriverProfiling_def py_range_1_4
    by (rule profiler_retries_no_warning)
  have trace: "snd (initStackdriverProfiling w) =
        [ProfilerStart (start_argument (environ w ''GCP_PROJECT_ID'')),
         LogInfo (''Unable to start Stackdriver Profiler Python agent. '' @ exc_str e1),
         LogInfo ''Sleeping 10 seconds to retry Stackdriver Profiler agent initialization'',
         Sleep 1,
         ProfilerStart (start_argument (environ w ''GCP_PROJECT_ID'')),
         LogInfo (''Unable to start Stackdriver Profiler Python agent. '' @ exc_str e2),
         LogInfo ''Sleeping 20 seconds to retry Stackdriver Profiler agent initialization'',
         Sleep 1,
         ProfilerStart (start_argument (environ w ''GCP_PROJECT_ID'')),
         LogInfo (''Unable to start Stackdriver Profiler Python agent. '' @ exc_str e3),
         LogInfo ''Sleeping 30 seconds to retry Stackdriver Profiler agent initialization'',
         Sleep 1]"
    if "googlecloudprofiler_start w 1 = Some e1" "googlecloudprofiler_start w 2 = Some e2"
       "googlecloudprofiler_start w 3 = Some e3"
    using that
    by (simp add: initStackdriverProfiling_def py_range_1_4 isinstance_BaseException
        str_int_tens)
  from returns starts backoff silent trace main_result_profiler_update [where w = w and start' = start']
  show ?thesis
    by blast
qed

theorem profiler_init_bounded_and_silent_witness:
  "googlecloudprofiler_start example_world 1 = Some (Error Exception ''no credentials'')
   \<and> googlecloudprofiler_start example_world 2 = Some (Error Exception ''no credentials'')
   \<and> googlecloudprofiler_start example_world 3 = Some (Error Exception ''no credentials'')
   \<and> fst (initStackdriverProfiling example_world) = Inr ()
   \<and> snd (initStackdriverProfiling example_world) =
        [ProfilerStart None,
         LogInfo ''Unable to start Stackdriver Profiler Python agent. no credentials'',
         LogInfo ''Sleeping 10 seconds to retry Stackdriver Profiler agent initialization'',
         Sleep 1,
         ProfilerStart None,
         LogInfo ''Unable to start Stackdriver Profiler Python agent. no credentials'',
         LogInfo ''Sleeping 20 seconds to retry Stackdriver Profiler agent initialization'',
         Sleep 1,
         ProfilerStart None,
         LogInfo ''Unable to start Stackdriver Profiler Python agent. no credentials'',
         LogInfo ''Sleeping 30 seconds to retry Stackdriver Profiler agent initialization'',
         Sleep 1]
   \<and> fst (main (example_world\<lparr>googlecloudprofiler_start := (\<lambda>retry. None)\<rparr>)) =
       fst (main example_world)"
proof -
  have s: "googlecloudprofiler_start example_world 1 = Some (Error Exception ''no credentials'')"
    "googlecloudprofiler_start example_world 2 = Some (Error Exception ''no credentials'')"
    "googlecloudprofiler_start example_world 3 = Some (Error Exception ''no credentials'')"
    by (simp_all add: example_world_def)
  have p: "start_argument (environ example_world ''GCP_PROJECT_ID'') = None"
    by (simp add: start_argument_def example_world_def)
  show ?thesis
    using s profiler_init_bounded_and_silent [of example_world
        "Error Exception ''no credentials''" "Error Exception ''no credentials''"
        "Error Exception ''no credentials''" "\<lambda>retry. None"]
    by (simp add: p)
qed

end
